theory Spec2Isabelle
  imports Complex_Main
begin

section \<open>JavaScript strings and regular expressions used by the scorer\<close>

text \<open>
  A JavaScript string is modelled as a \<^typ>\<open>string\<close>, a list of 8-bit characters: the
  model covers the texts whose code units are below 256 (ASCII and Latin-1).  On these,
  \<open>toLowerCase\<close> folds \<open>A\<close>..\<open>Z\<close> and the Latin-1 capitals \<open>0xC0\<close>..\<open>0xDE\<close> (but the
  multiplication sign \<open>0xD7\<close>), \<open>\\s\<close> is blank, tab, line feed, vertical tab, form feed,
  carriage return and the no-break space \<open>0xA0\<close>, and \<open>\\w\<close> is \<open>[A-Za-z0-9_]\<close>.

  The scores are modelled as exact reals: every category score is a sum of small
  integers and halves, which binary64 computes exactly, but the weighted sum and the
  percentages of \<open>scoreSkill\<close> are rounded by the code and not by this model, so that
  an upper bound on the overall percentage is stated with a margin.  The check of the
  weights at load time is modelled in binary64 arithmetic (see the rubric).
\<close>

text \<open>\<open>String.prototype.startsWith\<close>.\<close>

fun startsWith :: "string \<Rightarrow> string \<Rightarrow> bool" where
  "startsWith s [] = True"
| "startsWith [] (p # ps) = False"
| "startsWith (c # cs) (p # ps) = (c = p \<and> startsWith cs ps)"

text \<open>\<open>String.prototype.includes\<close>: the pattern occurs at some position.\<close>

fun includesStr :: "string \<Rightarrow> string \<Rightarrow> bool" where
  "includesStr [] p = (p = [])"
| "includesStr (c # cs) p = (startsWith (c # cs) p \<or> includesStr cs p)"

definition upperLetters :: string where
  "upperLetters = ''ABCDEFGHIJKLMNOPQRSTUVWXYZ''"

definition lowerLetters :: string where
  "lowerLetters = ''abcdefghijklmnopqrstuvwxyz''"

definition digits :: string where
  "digits = ''0123456789''"

definition isUpper :: "char \<Rightarrow> bool" where
  "isUpper c = (c \<in> set upperLetters)"

definition isLower :: "char \<Rightarrow> bool" where
  "isLower c = (c \<in> set lowerLetters)"

definition isDigit :: "char \<Rightarrow> bool" where
  "isDigit c = (c \<in> set digits)"

text \<open>The character class \<open>[a-zA-Z0-9]\<close>.\<close>

definition isAlnum :: "char \<Rightarrow> bool" where
  "isAlnum c = (isLower c \<or> isUpper c \<or> isDigit c)"

text \<open>The character class \<open>[a-z0-9]\<close>.\<close>

definition isLowerAlnum :: "char \<Rightarrow> bool" where
  "isLowerAlnum c = (isLower c \<or> isDigit c)"

text \<open>The character class \<open>\\w\<close>.\<close>

definition isWordChar :: "char \<Rightarrow> bool" where
  "isWordChar c = (isAlnum c \<or> c = CHR ''_'')"

text \<open>The character class \<open>\\s\<close> (on code units below 256).\<close>

definition isSpace :: "char \<Rightarrow> bool" where
  "isSpace c = (c \<in> {CHR '' '', CHR 0x09, CHR 0x0A, CHR 0x0B, CHR 0x0C, CHR 0x0D, CHR 0xA0})"

text \<open>The Latin-1 capitals \<open>0xC0\<close>..\<open>0xDE\<close> but \<open>0xD7\<close>; the small letter is 32 further.\<close>

definition isLatinUpper :: "char \<Rightarrow> bool" where
  "isLatinUpper c = (192 \<le> (of_char c :: nat) \<and> (of_char c :: nat) \<le> 222 \<and> c \<noteq> CHR 0xD7)"

definition toLowerChar :: "char \<Rightarrow> char" where
  "toLowerChar c =
     (case map_of (zip upperLetters lowerLetters) c of
        None \<Rightarrow> if isLatinUpper c then char_of (of_char c + 32 :: nat) else c
      | Some d \<Rightarrow> d)"

text \<open>\<open>String.prototype.toLowerCase\<close>.\<close>

definition toLowerCase :: "string \<Rightarrow> string" where
  "toLowerCase s = map toLowerChar s"

text \<open>\<open>Array.prototype.join\<close>.\<close>

fun join :: "string \<Rightarrow> string list \<Rightarrow> string" where
  "join sep [] = []"
| "join sep [x] = x"
| "join sep (x # y # ys) = x @ sep @ join sep (y # ys)"

text \<open>A non-negative integer interpolated into a template string.\<close>

fun showNat :: "nat \<Rightarrow> string" where
  "showNat n = (if n < 10 then [digits ! n] else showNat (n div 10) @ [digits ! (n mod 10)])"

text \<open>\<open>s.split(' ')\<close>: one piece more than there are separators; \<open>''.split(' ')\<close> is \<open>['']\<close>.\<close>

fun splitChar :: "char \<Rightarrow> string \<Rightarrow> string list" where
  "splitChar d [] = [[]]"
| "splitChar d (c # cs) =
     (if c = d then [] # splitChar d cs
      else (case splitChar d cs of [] \<Rightarrow> [[c]] | w # ws \<Rightarrow> (c # w) # ws))"

text \<open>\<open>s.split(/\\s+/)\<close>: the separators are the maximal runs of white space.\<close>

function splitWs :: "string \<Rightarrow> string list" where
  "splitWs [] = [[]]"
| "splitWs (c # cs) =
     (if isSpace c then [] # splitWs (dropWhile isSpace cs)
      else (case splitWs cs of [] \<Rightarrow> [[c]] | w # ws \<Rightarrow> (c # w) # ws))"
  by pat_completeness auto
termination
  by (relation "measure length") (auto simp: le_imp_less_Suc length_dropWhile_le)

text \<open>
  \<open>/\\b(and|or|also|plus|additionally)\\b/gi\<close>, used for its truth value: some position
  after a non-word character (or the start) begins one of the words, in any case, and
  the word is followed by a non-word character (or the end).
\<close>

definition conjunctionWords :: "string list" where
  "conjunctionWords = [''and'', ''or'', ''also'', ''plus'', ''additionally'']"

definition boundaryAfter :: "string \<Rightarrow> bool" where
  "boundaryAfter rest = (case rest of [] \<Rightarrow> True | d # _ \<Rightarrow> \<not> isWordChar d)"

definition wordHere :: "string \<Rightarrow> string \<Rightarrow> bool" where
  "wordHere s w = (startsWith (toLowerCase s) w \<and> boundaryAfter (drop (length w) s))"

fun hasMultipleVerbsFrom :: "bool \<Rightarrow> string \<Rightarrow> bool" where
  "hasMultipleVerbsFrom prevWord [] = False"
| "hasMultipleVerbsFrom prevWord (c # cs) =
     ((\<not> prevWord \<and> list_ex (wordHere (c # cs)) conjunctionWords)
      \<or> hasMultipleVerbsFrom (isWordChar c) cs)"

text \<open>\<open>/\\d+\\./.test(s)\<close>: some digit stands right before a full stop.\<close>

fun hasNumberedStepsRe :: "string \<Rightarrow> bool" where
  "hasNumberedStepsRe (c # d # cs) = ((isDigit c \<and> d = CHR ''.'') \<or> hasNumberedStepsRe (d # cs))"
| "hasNumberedStepsRe cs = False"

text \<open>\<open>/`[a-z_-]+`/\<close>: a backquote, one or more of \<open>[a-z_-]\<close>, a backquote.\<close>

definition isToolChar :: "char \<Rightarrow> bool" where
  "isToolChar c = (isLower c \<or> c = CHR ''_'' \<or> c = CHR ''-'')"

fun toolNameBody :: "string \<Rightarrow> bool" where
  "toolNameBody [] = False"
| "toolNameBody (c # cs) = (isToolChar c \<and> (startsWith cs ''`'' \<or> toolNameBody cs))"

fun hasBackquotedName :: "string \<Rightarrow> bool" where
  "hasBackquotedName [] = False"
| "hasBackquotedName (c # cs) = ((c = CHR ''`'' \<and> toolNameBody cs) \<or> hasBackquotedName cs)"

text \<open>\<open>(s.match(/```/g) || []).length\<close>: the matches do not overlap.\<close>

fun countFences :: "string \<Rightarrow> nat" where
  "countFences (a # b # c # cs) =
     (if a = CHR ''`'' \<and> b = CHR ''`'' \<and> c = CHR ''`'' then Suc (countFences cs)
      else countFences (b # c # cs))"
| "countFences cs = 0"

text \<open>
  A regular expression \<open>p1[\\s\\S]*?p2[\\s\\S]*?...pn\<close> of literals separated by
  arbitrary text matches when the literals occur in this order without overlapping;
  taking the first occurrence of each leaves the longest rest for the next.
\<close>

fun afterFirst :: "string \<Rightarrow> string \<Rightarrow> string option" where
  "afterFirst p [] = (if p = [] then Some [] else None)"
| "afterFirst p (c # cs) =
     (if startsWith (c # cs) p then Some (drop (length p) (c # cs)) else afterFirst p cs)"

fun inOrder :: "string list \<Rightarrow> string \<Rightarrow> bool" where
  "inOrder [] s = True"
| "inOrder (p # ps) s = (case afterFirst p s of None \<Rightarrow> False | Some r \<Rightarrow> inOrder ps r)"

text \<open>\<open>/```[\\s\\S]*?(json|yaml|xml|{[\\s\\S]*?}|\\[[\\s\\S]*?\\])[\\s\\S]*?```/.test(s)\<close>.\<close>

definition hasStructuredOutputRe :: "string \<Rightarrow> bool" where
  "hasStructuredOutputRe s =
     list_ex (\<lambda>ps. inOrder ps s)
       [[''```'', ''json'', ''```''], [''```'', ''yaml'', ''```''], [''```'', ''xml'', ''```''],
        [''```'', ''{'', ''}'', ''```''], [''```'', ''['', '']'', ''```'']]"

section \<open>The path/URL classifier (scorer.ts, findHardcodedPaths)\<close>

text \<open>The character class \<open>[a-zA-Z0-9\\/_.-]\<close>.\<close>

definition isPathChar :: "char \<Rightarrow> bool" where
  "isPathChar c = (isAlnum c \<or> c = CHR ''/'' \<or> c = CHR ''_'' \<or> c = CHR ''.'' \<or> c = CHR ''-'')"

text \<open>The character class \<open>[a-zA-Z0-9\\\\._-]\<close>.\<close>

definition isDriveChar :: "char \<Rightarrow> bool" where
  "isDriveChar c = (isAlnum c \<or> c = CHR 0x5C \<or> c = CHR ''.'' \<or> c = CHR ''_'' \<or> c = CHR ''-'')"

definition startsAlnum :: "string \<Rightarrow> bool" where
  "startsAlnum cs = (case cs of [] \<Rightarrow> False | d # _ \<Rightarrow> isAlnum d)"

text \<open>
  \<open>content.match(/\\/[a-zA-Z0-9][a-zA-Z0-9\\/_.-]*|[A-Z]:\\\\[a-zA-Z0-9\\\\._-]*/g) || []\<close>:
  the matches from left to right, each one greedy, the search going on after a match.
\<close>

function potentialPaths :: "string \<Rightarrow> string list" where
  "potentialPaths [] = []"
| "potentialPaths (c # cs) =
     (if c = CHR ''/'' \<and> startsAlnum cs
      then (c # takeWhile isPathChar cs) # potentialPaths (dropWhile isPathChar cs)
      else if isUpper c \<and> startsWith cs [CHR '':'', CHR 0x5C]
      then (c # CHR '':'' # CHR 0x5C # takeWhile isDriveChar (drop 2 cs))
             # potentialPaths (dropWhile isDriveChar (drop 2 cs))
      else potentialPaths cs)"
  by pat_completeness auto
termination
proof (relation "measure length")
  show "wf (measure length)" by simp
next
  fix c :: char and cs :: string
  have "length (dropWhile isPathChar cs) \<le> length cs"
    by (rule length_dropWhile_le)
  then show "(dropWhile isPathChar cs, c # cs) \<in> measure length" by simp
next
  fix c :: char and cs :: string
  have "length (dropWhile isDriveChar (drop 2 cs)) \<le> length (drop 2 cs)"
    by (rule length_dropWhile_le)
  then show "(dropWhile isDriveChar (drop 2 cs), c # cs) \<in> measure length" by simp
next
  fix c :: char and cs :: string
  show "(cs, c # cs) \<in> measure length" by simp
qed

declare potentialPaths.simps [simp del]

text \<open>
  \<open>/^\\/\\//.test(path) || content.includes(`http:${path}`) ||
  content.includes(`https:${path}`) || content.includes(`ftp:${path}`)\<close>.
\<close>

definition isSchemePrefixed :: "string \<Rightarrow> string \<Rightarrow> bool" where
  "isSchemePrefixed content path =
     (startsWith path ''//'' \<or> includesStr content (''http:'' @ path)
      \<or> includesStr content (''https:'' @ path) \<or> includesStr content (''ftp:'' @ path))"

text \<open>The character class \<open>[\\w.-]\<close>.\<close>

definition isHostChar :: "char \<Rightarrow> bool" where
  "isHostChar c = (isWordChar c \<or> c = CHR ''.'' \<or> c = CHR ''-'')"

text \<open>\<open>[\\w.-]+\<close> followed by the path, taken literally (the source escapes it).\<close>

fun hostThenPath :: "string \<Rightarrow> string \<Rightarrow> bool" where
  "hostThenPath [] path = False"
| "hostThenPath (c # cs) path = (isHostChar c \<and> (startsWith cs path \<or> hostThenPath cs path))"

text \<open>\<open>new RegExp(`https?://[\\\\w.-]+${escaped path}`).test(content)\<close>.\<close>

fun urlPatternTest :: "string \<Rightarrow> string \<Rightarrow> bool" where
  "urlPatternTest [] path = False"
| "urlPatternTest (c # cs) path =
     ((startsWith (c # cs) ''http://'' \<and> hostThenPath (drop 7 (c # cs)) path)
      \<or> (startsWith (c # cs) ''https://'' \<and> hostThenPath (drop 8 (c # cs)) path)
      \<or> urlPatternTest cs path)"

definition isUrlPath :: "string \<Rightarrow> string \<Rightarrow> bool" where
  "isUrlPath content path =
     ((includesStr content ''http://'' \<or> includesStr content ''https://'')
      \<and> urlPatternTest content path)"

text \<open>
  \<open>path.match(/\\/[a-z0-9]+\\/[a-z0-9]+$/)\<close>: read from the end, the path is a
  non-empty run of \<open>[a-z0-9]\<close>, a slash, another such run and a slash.
\<close>

definition twoSegmentTail :: "string \<Rightarrow> bool" where
  "twoSegmentTail path =
     (let r = rev path;
          r1 = dropWhile isLowerAlnum r;
          r2 = dropWhile isLowerAlnum (drop 1 r1)
      in takeWhile isLowerAlnum r \<noteq> [] \<and> startsWith r1 ''/''
         \<and> takeWhile isLowerAlnum (drop 1 r1) \<noteq> [] \<and> startsWith r2 ''/'')"

definition isNonFilesystem :: "string \<Rightarrow> string \<Rightarrow> bool" where
  "isNonFilesystem content path =
     (startsWith path ''/api/'' \<or> startsWith path ''/v1/'' \<or> startsWith path ''/v2/''
      \<or> (includesStr path ''/data/'' \<and> includesStr content ''api'')
      \<or> (twoSegmentTail path \<and> includesStr content ''.com'')
      \<or> length path < 4)"

text \<open>\<open>path.match(/^[A-Z]:\\\\/)\<close>.\<close>

definition isDriveRoot :: "string \<Rightarrow> bool" where
  "isDriveRoot path =
     (case path of a # b # c # _ \<Rightarrow> isUpper a \<and> b = CHR '':'' \<and> c = CHR 0x5C | _ \<Rightarrow> False)"

definition looksLikeRealPath :: "string \<Rightarrow> bool" where
  "looksLikeRealPath path =
     (startsWith path ''/home/'' \<or> startsWith path ''/Users/''
      \<or> startsWith path ''/usr/'' \<or> startsWith path ''/opt/''
      \<or> startsWith path ''/etc/'' \<or> startsWith path ''/var/''
      \<or> startsWith path ''/tmp/'' \<or> startsWith path ''/bin/''
      \<or> startsWith path ''/sbin/'' \<or> isDriveRoot path
      \<or> includesStr path ''/.'')"

text \<open>The \<open>for (const path of potentialPaths)\<close> loop; each \<open>continue\<close> is a branch.\<close>

fun classifyPaths :: "string \<Rightarrow> string list \<Rightarrow> string list" where
  "classifyPaths content [] = []"
| "classifyPaths content (path # rest) =
     (if isSchemePrefixed content path then classifyPaths content rest
      else if isUrlPath content path then classifyPaths content rest
      else if isNonFilesystem content path then classifyPaths content rest
      else if looksLikeRealPath path then path # classifyPaths content rest
      else classifyPaths content rest)"

definition findHardcodedPaths :: "string \<Rightarrow> string list" where
  "findHardcodedPaths content = classifyPaths content (potentialPaths content)"

section \<open>IEEE 754 binary64 arithmetic\<close>

text \<open>
  A JavaScript number is a binary64 floating-point number; it is modelled as the real
  number that it denotes.  The sum of two numbers is the binary64 number nearest to their
  real sum, and a decimal literal denotes the binary64 number nearest to its value.
  Infinity and NaN are not modelled: \<open>double\<close> is right for the reals between the largest
  binary64 number and its negative, and not beyond.

  The exponent of a positive real \<open>a\<close> is the integer \<open>e\<close> with \<open>2^e \<le> a < 2^(e+1)\<close>; it is
  found by halving a number from 2 upwards and by doubling a number below 1.
\<close>

function expoUp :: "real \<Rightarrow> int" where
  "expoUp x = (if x < 2 then 0 else expoUp (x / 2) + 1)"
  by pat_completeness auto
termination
proof (relation "measure (\<lambda>x. nat \<lfloor>x\<rfloor>)")
  show "wf (measure (\<lambda>x::real. nat \<lfloor>x\<rfloor>))" by simp
next
  fix x :: real
  assume "\<not> x < 2"
  then have "x / 2 < of_int \<lfloor>x\<rfloor>" and "0 < \<lfloor>x\<rfloor>" by linarith+
  then have "\<lfloor>x / 2\<rfloor> < \<lfloor>x\<rfloor>" by (simp add: floor_less_iff)
  then show "(x / 2, x) \<in> measure (\<lambda>x. nat \<lfloor>x\<rfloor>)" using \<open>0 < \<lfloor>x\<rfloor>\<close> by simp
qed

function expoDown :: "real \<Rightarrow> int" where
  "expoDown x = (if x \<le> 0 \<or> 1 \<le> x then 0 else expoDown (2 * x) - 1)"
  by pat_completeness auto
termination
proof (relation "measure (\<lambda>x. nat \<lfloor>1 / x\<rfloor>)")
  show "wf (measure (\<lambda>x::real. nat \<lfloor>1 / x\<rfloor>))" by simp
next
  fix x :: real
  assume "\<not> (x \<le> 0 \<or> 1 \<le> x)"
  then have x: "0 < x" "x < 1" by auto
  define y where "y = 1 / x"
  have y: "1 < y" using x by (simp add: y_def)
  then have pos: "0 < \<lfloor>y\<rfloor>" by linarith
  have "y < of_int \<lfloor>y\<rfloor> + 1" by linarith
  then have "y / 2 < of_int \<lfloor>y\<rfloor>" using pos by linarith
  then have "\<lfloor>y / 2\<rfloor> < \<lfloor>y\<rfloor>" by (simp add: floor_less_iff)
  then have "nat \<lfloor>y / 2\<rfloor> < nat \<lfloor>y\<rfloor>" using pos by linarith
  moreover have e: "1 / (2 * x) = y / 2" by (simp add: y_def)
  ultimately have "nat \<lfloor>1 / (2 * x)\<rfloor> < nat \<lfloor>y\<rfloor>" by (simp only: e)
  then show "(2 * x, x) \<in> measure (\<lambda>x. nat \<lfloor>1 / x\<rfloor>)"
    unfolding in_measure y_def .
qed

declare expoUp.simps [simp del] expoDown.simps [simp del]

definition exponent :: "real \<Rightarrow> int" where
  "exponent a = (if 1 \<le> a then expoUp a else expoDown a)"

text \<open>The nearest integer; of two nearest integers, the even one.\<close>

definition roundEven :: "real \<Rightarrow> int" where
  "roundEven q =
     (let f = \<lfloor>q\<rfloor>; r = q - of_int f
      in if r < 1 / 2 then f else if 1 / 2 < r then f + 1 else if even f then f else f + 1)"

text \<open>
  Rounding to nearest, ties to even, with 53 significant bits: the numbers between
  \<open>2^e\<close> and \<open>2^(e+1)\<close> are rounded to a multiple of \<open>2^(e-52)\<close>, and the numbers below the
  smallest normal number \<open>2^(-1022)\<close> to a multiple of \<open>2^(-1074)\<close>.
\<close>

definition double :: "real \<Rightarrow> real" where
  "double x =
     (if x = 0 then 0
      else let a = \<bar>x\<bar>; ulp = 2 powi (max (exponent a - 52) (- 1074))
           in sgn x * of_int (roundEven (a / ulp)) * ulp)"

text \<open>The operators \<open>+\<close> and \<open>-\<close> on numbers.\<close>

definition add64 :: "real \<Rightarrow> real \<Rightarrow> real" where
  "add64 a b = double (a + b)"

definition sub64 :: "real \<Rightarrow> real \<Rightarrow> real" where
  "sub64 a b = double (a - b)"

text \<open>A bound on the rounding error of a number of absolute value at most 2048.\<close>

definition eps :: real where
  "eps = 1 / 2 ^ 42"

section \<open>The rubric (rubric.ts)\<close>

record ScoringCategory =
  cid :: string
  cname :: string
  cdescription :: string
  weight :: real
  cmaxScore :: real

definition SCORING_CATEGORIES :: "ScoringCategory list" where
  "SCORING_CATEGORIES = [
     \<lparr>cid = ''structure'', cname = ''Structure'',
      cdescription = ''SKILL.md exists, clear name/description, follows conventions, clean file organization'',
      weight = 0.15, cmaxScore = 10\<rparr>,
     \<lparr>cid = ''clarity'', cname = ''Clarity'',
      cdescription = ''Specific actionable instructions, no ambiguity, logical order, agent knows what to do'',
      weight = 0.20, cmaxScore = 10\<rparr>,
     \<lparr>cid = ''safety'', cname = ''Safety'',
      cdescription = ''No destructive commands without confirmation, no secret exfiltration, no unbounded loops, respects permissions'',
      weight = 0.20, cmaxScore = 10\<rparr>,
     \<lparr>cid = ''dependencies'', cname = ''Dependencies'',
      cdescription = ''Lists required tools/APIs, checks before running, install instructions, states env vars'',
      weight = 0.10, cmaxScore = 10\<rparr>,
     \<lparr>cid = ''errorHandling'', cname = ''Error Handling'',
      cdescription = ''Failure instructions, fallbacks, no silent failures, edge cases'',
      weight = 0.10, cmaxScore = 10\<rparr>,
     \<lparr>cid = ''scope'', cname = ''Scope'',
      cdescription = ''Single responsibility, accurate description, specific triggers, no conflicts'',
      weight = 0.10, cmaxScore = 10\<rparr>,
     \<lparr>cid = ''documentation'', cname = ''Documentation'',
      cdescription = ''Usage examples, expected I/O, edge cases, troubleshooting'',
      weight = 0.10, cmaxScore = 10\<rparr>,
     \<lparr>cid = ''portability'', cname = ''Portability'',
      cdescription = ''Cross-platform, no hardcoded paths, notes limitations, relative paths'',
      weight = 0.05, cmaxScore = 10\<rparr>]"

text \<open>
  The statements at the top level of rubric.ts run when the module is loaded:
  \<open>totalWeight\<close> is the \<open>reduce\<close> over the table, and the module throws when it is
  further than 0.001 from 1, in binary64 arithmetic.  The table is a parameter here, so
  that the check can be stated for any table; the field \<open>weight\<close> holds the value of the
  literal in the source, which denotes the number \<open>double (weight cat)\<close>.  The thrown
  \<open>Error\<close> carries the total.
\<close>

datatype error = WeightsError real

definition totalWeight :: "ScoringCategory list \<Rightarrow> real" where
  "totalWeight cats = foldl (\<lambda>sum cat. add64 sum (double (weight cat))) 0 cats"

definition loadRubric :: "ScoringCategory list \<Rightarrow> error + unit" where
  "loadRubric cats =
     (if \<bar>sub64 (totalWeight cats) (double 1.0)\<bar> > double 0.001
      then Inl (WeightsError (totalWeight cats))
      else Inr ())"

definition getLetterGrade :: "real \<Rightarrow> string" where
  "getLetterGrade score =
     (if score \<ge> 97 then ''A+''
      else if score \<ge> 93 then ''A''
      else if score \<ge> 90 then ''A-''
      else if score \<ge> 87 then ''B+''
      else if score \<ge> 83 then ''B''
      else if score \<ge> 80 then ''B-''
      else if score \<ge> 77 then ''C+''
      else if score \<ge> 73 then ''C''
      else if score \<ge> 70 then ''C-''
      else if score \<ge> 67 then ''D+''
      else if score \<ge> 65 then ''D''
      else if score \<ge> 60 then ''D-''
      else ''F'')"

text \<open>The order of the grades, the failing grade lowest, to state that the mapping is monotone.\<close>

definition gradeOrder :: "string list" where
  "gradeOrder = [''F'', ''D-'', ''D'', ''D+'', ''C-'', ''C'', ''C+'', ''B-'', ''B'', ''B+'', ''A-'', ''A'', ''A+'']"

fun indexOf :: "string \<Rightarrow> string list \<Rightarrow> nat" where
  "indexOf g [] = 0"
| "indexOf g (x # xs) = (if g = x then 0 else Suc (indexOf g xs))"

definition gradeRank :: "string \<Rightarrow> nat" where
  "gradeRank g = indexOf g gradeOrder"

section \<open>The scorer's data (scorer.ts, parsers/skillParser.ts)\<close>

record FileStructure =
  hasSkillMd :: bool
  hasReadme :: bool
  hasPackageJson :: bool
  hasScripts :: bool
  totalFiles :: nat
  directories :: "string list"
  fileTypes :: "(string \<times> nat) list"

record ParsedSkill =
  skillPath :: string
  skillMdExists :: bool
  skillMdContent :: string
  name :: string
  description :: string
  files :: "string list"
  metadata :: "(string \<times> string) list"
  "structure" :: FileStructure

datatype FindingType = Pass | Fail | Warning | Info

record Finding =
  ftype :: FindingType
  message :: string
  points :: real

record CategoryScore =
  category :: ScoringCategory
  score :: real
  maxScore :: real
  percentage :: real
  findings :: "Finding list"
  weightedScore :: real

text \<open>
  The fields \<open>skill\<close> and \<open>percentage\<close> of a \<open>SkillScore\<close> are \<open>scoredSkill\<close> and
  \<open>overallPercentage\<close> here; \<open>timestamp\<close> is the instant of the call in milliseconds.
\<close>

record SkillScore =
  scoredSkill :: ParsedSkill
  categoryScores :: "CategoryScore list"
  totalScore :: real
  maxTotalScore :: real
  overallPercentage :: real
  letterGrade :: string
  timestamp :: nat

text \<open>
  Every scorer keeps a running \<open>score\<close> and a list of \<open>findings\<close>.  One sub-check does
  \<open>score += d\<close> (nothing when the branch adds no points) and
  \<open>findings.push({type, message, points})\<close>.
\<close>

type_synonym tally = "real \<times> Finding list"

definition award :: "real \<Rightarrow> FindingType \<Rightarrow> string \<Rightarrow> real \<Rightarrow> tally \<Rightarrow> tally" where
  "award d t m p st = (fst st + d, snd st @ [\<lparr>ftype = t, message = m, points = p\<rparr>])"

text \<open>\<open>return { score: Math.min(score, 10), findings }\<close>.\<close>

definition finish :: "tally \<Rightarrow> tally" where
  "finish st = (min (fst st) 10, snd st)"

text \<open>\<open>patterns.some(p => content.includes(p))\<close> and \<open>patterns.filter(p => content.includes(p))\<close>.\<close>

definition someIncluded :: "string list \<Rightarrow> string \<Rightarrow> bool" where
  "someIncluded patterns content = list_ex (\<lambda>p. includesStr content p) patterns"

definition thoseIncluded :: "string list \<Rightarrow> string \<Rightarrow> string list" where
  "thoseIncluded patterns content = filter (\<lambda>p. includesStr content p) patterns"

subsection \<open>Structure\<close>

definition structSkillMd :: "ParsedSkill \<Rightarrow> tally \<Rightarrow> tally" where
  "structSkillMd skill =
     (if skillMdExists skill then award 3 Pass ''SKILL.md file exists'' 3
      else award 0 Fail ''SKILL.md file is missing'' 0)"

definition structName :: "ParsedSkill \<Rightarrow> tally \<Rightarrow> tally" where
  \<open>structName skill =
     (if name skill \<noteq> [] \<and> length (name skill) > 0
      then award 2 Pass (''Clear skill name: "'' @ name skill @ ''"'') 2
      else award 0 Fail ''No clear skill name found'' 0)\<close>

definition structDescription :: "ParsedSkill \<Rightarrow> tally \<Rightarrow> tally" where
  "structDescription skill =
     (if description skill \<noteq> [] \<and> length (description skill) > 20
      then award 2 Pass ''Clear description provided'' 2
      else if description skill \<noteq> [] \<and> length (description skill) > 0
      then award 1 Warning ''Description is very brief'' 1
      else award 0 Fail ''No description found'' 0)"

definition hasTransientFile :: "string list \<Rightarrow> bool" where
  "hasTransientFile fs =
     list_ex (\<lambda>f. includesStr f ''tmp'' \<or> includesStr f ''temp'' \<or> includesStr f ''.log'') fs"

definition orgScore :: "ParsedSkill \<Rightarrow> real" where
  "orgScore skill =
     (if totalFiles (structure skill) \<le> 20 then 0.25 else 0)
     + (if length (directories (structure skill)) \<le> 5 then 0.25 else 0)
     + (if \<not> hasTransientFile (files skill) then 0.5 else 0)"

text \<open>\<open>Math.round(x)\<close> rounds to the nearest integer, a half upwards.\<close>

definition mathRound :: "real \<Rightarrow> real" where
  "mathRound x = of_int \<lfloor>x + 1 / 2\<rfloor>"

definition orgPoints :: "ParsedSkill \<Rightarrow> real" where
  "orgPoints skill = min (mathRound (orgScore skill * 2) / 2) 1"

definition structOrganization :: "ParsedSkill \<Rightarrow> tally \<Rightarrow> tally" where
  "structOrganization skill =
     award (orgPoints skill)
       (if orgScore skill \<ge> 0.75 then Pass else if orgScore skill \<ge> 0.5 then Warning else Fail)
       (''File organization: '' @ showNat (totalFiles (structure skill)) @ '' files, ''
          @ showNat (length (directories (structure skill))) @ '' directories'')
       (orgPoints skill)"

definition outputPatterns :: "string list" where
  "outputPatterns = [''output'', ''artifact'', ''write to'', ''save to'', ''generates'', ''produces'',
     ''/output'', ''result file'', ''deliverable'']"

definition structOutputSpec :: "ParsedSkill \<Rightarrow> tally \<Rightarrow> tally" where
  "structOutputSpec skill =
     (if someIncluded outputPatterns (toLowerCase (skillMdContent skill))
      then award 1 Pass ''Defines output location or artifacts'' 1
      else award 0 Fail ''No output/artifact specification found'' 0)"

definition conventionScore :: "ParsedSkill \<Rightarrow> real" where
  "conventionScore skill =
     (if skillMdExists skill then 0.5 else 0)
     + (if includesStr (skillMdContent skill) ''# '' \<or> includesStr (skillMdContent skill) ''## ''
        then 0.5 else 0)"

definition structConventions :: "ParsedSkill \<Rightarrow> tally \<Rightarrow> tally" where
  "structConventions skill =
     award (conventionScore skill)
       (if conventionScore skill \<ge> 0.5 then Pass else Warning)
       (''Convention compliance: ''
          @ (if conventionScore skill \<ge> 0.5 then ''follows'' else ''partially follows'')
          @ '' standard format'')
       (conventionScore skill)"

definition structureTally :: "ParsedSkill \<Rightarrow> tally" where
  "structureTally skill =
     structConventions skill (structOutputSpec skill (structOrganization skill
       (structDescription skill (structName skill (structSkillMd skill (0, []))))))"

definition scoreStructure :: "ParsedSkill \<Rightarrow> tally" where
  "scoreStructure skill = finish (structureTally skill)"

subsection \<open>Clarity\<close>

definition clarityHasSteps :: "string \<Rightarrow> bool" where
  "clarityHasSteps content =
     (includesStr content ''step'' \<or> includesStr content ''1.'' \<or> includesStr content ''-'')"

definition clarityHasCommands :: "string \<Rightarrow> bool" where
  "clarityHasCommands content =
     (includesStr content ''`'' \<or> includesStr content ''exec'' \<or> includesStr content ''run'')"

definition claritySpecific :: "string \<Rightarrow> tally \<Rightarrow> tally" where
  "claritySpecific content =
     (if clarityHasSteps content \<and> clarityHasCommands content
      then award 3 Pass ''Contains specific step-by-step instructions with commands'' 3
      else if clarityHasSteps content \<or> clarityHasCommands content
      then award 2 Warning ''Has some specific instructions but could be clearer'' 2
      else award 0 Fail ''Instructions lack specificity and clear steps'' 0)"

definition ambiguousWords :: "string list" where
  "ambiguousWords = [''maybe'', ''might'', ''could'', ''perhaps'', ''possibly'', ''sometimes'']"

definition ambiguityCount :: "string \<Rightarrow> nat" where
  "ambiguityCount content = length (thoseIncluded ambiguousWords content)"

definition clarityAmbiguity :: "string \<Rightarrow> tally \<Rightarrow> tally" where
  "clarityAmbiguity content =
     (if ambiguityCount content = 0
      then award 3 Pass ''No ambiguous language detected'' 3
      else if ambiguityCount content \<le> 2
      then award 2 Warning
             (''Some ambiguous language detected ('' @ showNat (ambiguityCount content) @ '' instances)'') 2
      else award 1 Fail
             (''Multiple ambiguous words found ('' @ showNat (ambiguityCount content) @ '' instances)'') 1)"

definition clarityOrder :: "ParsedSkill \<Rightarrow> string \<Rightarrow> tally \<Rightarrow> tally" where
  "clarityOrder skill content =
     (if hasNumberedStepsRe (skillMdContent skill)
         \<or> (includesStr content ''first'' \<or> includesStr content ''then'' \<or> includesStr content ''next'')
      then award 2 Pass ''Instructions follow logical order'' 2
      else award 1 Warning ''Could benefit from clearer ordering of steps'' 1)"

definition clarityHasTriggers :: "string \<Rightarrow> bool" where
  "clarityHasTriggers content =
     (includesStr content ''when'' \<or> includesStr content ''if'' \<or> includesStr content ''trigger'')"

definition clarityHasSuccessCriteria :: "string \<Rightarrow> bool" where
  "clarityHasSuccessCriteria content =
     (includesStr content ''success'' \<or> includesStr content ''complete'' \<or> includesStr content ''done'')"

definition clarityAgent :: "string \<Rightarrow> tally \<Rightarrow> tally" where
  "clarityAgent content =
     (if clarityHasTriggers content \<and> clarityHasSuccessCriteria content
      then award 2 Pass ''Clear triggers and success criteria defined'' 2
      else if clarityHasTriggers content \<or> clarityHasSuccessCriteria content
      then award 1 Warning ''Has some clarity for agents but could be improved'' 1
      else award 0 Fail ''Lacks clear triggers or success criteria for agents'' 0)"

definition clarityTally :: "ParsedSkill \<Rightarrow> tally" where
  "clarityTally skill =
     (let content = toLowerCase (skillMdContent skill)
      in clarityAgent content (clarityOrder skill content
           (clarityAmbiguity content (claritySpecific content (0, [])))))"

definition scoreClarity :: "ParsedSkill \<Rightarrow> tally" where
  "scoreClarity skill = finish (clarityTally skill)"

subsection \<open>Safety\<close>

definition destructiveCommands :: "string list" where
  "destructiveCommands = [''rm -rf'', ''rm -f'', ''del /f'', ''format'', ''fdisk'', ''dd if='']"

definition destructiveFound :: "string \<Rightarrow> string list" where
  "destructiveFound content = filter (\<lambda>cmd. includesStr content (toLowerCase cmd)) destructiveCommands"

definition hasConfirmation :: "string \<Rightarrow> bool" where
  "hasConfirmation content =
     (includesStr content ''confirm'' \<or> includesStr content ''ask'' \<or> includesStr content ''prompt'')"

definition safetyDestructive :: "string \<Rightarrow> tally \<Rightarrow> tally" where
  "safetyDestructive content =
     (if length (destructiveFound content) = 0
      then award 3 Pass ''No dangerous destructive commands found'' 3
      else if hasConfirmation content
      then award 2 Warning
             (''Destructive commands found but with confirmation: '' @ join '', '' (destructiveFound content)) 2
      else award 0 Fail
             (''Dangerous commands without confirmation: '' @ join '', '' (destructiveFound content)) 0)"

definition secretPatterns :: "string list" where
  "secretPatterns = [''password'', ''secret'', ''token'', ''api_key'', ''private_key'',
     ''ssh_key'', ''credential'', ''auth'', ''.env'']"

definition exfilPatterns :: "string list" where
  "exfilPatterns = [''curl'', ''wget'', ''http'', ''upload'', ''send'', ''post'']"

definition hasProtection :: "string \<Rightarrow> bool" where
  "hasProtection content =
     (includesStr content ''sanitize'' \<or> includesStr content ''redact'' \<or> includesStr content ''mask'')"

definition safetySecrets :: "string \<Rightarrow> tally \<Rightarrow> tally" where
  "safetySecrets content =
     (if \<not> someIncluded secretPatterns content \<or> \<not> someIncluded exfilPatterns content
      then award 3 Pass ''No obvious secret exfiltration risks'' 3
      else if hasProtection content
      then award 2 Warning ''Potential secret handling with protection measures'' 2
      else award 1 Warning ''Potential secret exfiltration risk detected'' 1)"

definition loopPatterns :: "string list" where
  "loopPatterns = [''while true'', ''for (;;)'', ''infinite'', ''forever'']"

definition hasBreakCondition :: "string \<Rightarrow> bool" where
  "hasBreakCondition content =
     (includesStr content ''break'' \<or> includesStr content ''exit'' \<or> includesStr content ''timeout'')"

definition safetyLoops :: "string \<Rightarrow> tally \<Rightarrow> tally" where
  "safetyLoops content =
     (if length (thoseIncluded loopPatterns content) = 0
      then award 1 Pass ''No unbounded loops detected'' 1
      else if hasBreakCondition content
      then award 1 Warning ''Potential unbounded loops with break conditions'' 1
      else award 0 Fail
             (''Unbounded loops without exit conditions: '' @ join '', '' (thoseIncluded loopPatterns content)) 0)"

definition networkTerms :: "string list" where
  "networkTerms = [''curl'', ''wget'', ''fetch'', ''http'', ''https'', ''api'', ''endpoint'', ''request'']"

definition containmentTerms :: "string list" where
  "containmentTerms = [''allowlist'', ''whitelist'', ''restrict'', ''domain'', ''scope'', ''trusted'',
     ''untrusted'', ''sanitize'', ''validate response'']"

definition safetyNetwork :: "string \<Rightarrow> tally \<Rightarrow> tally" where
  "safetyNetwork content =
     (if someIncluded networkTerms content
      then (if someIncluded containmentTerms content
            then award 1 Pass ''Network usage with containment measures'' 1
            else award 0 Fail ''Network usage without containment measures'' 0)
      else award 1 Pass ''No network usage detected (containment N/A)'' 1)"

definition privEscalation :: "string list" where
  "privEscalation = [''sudo'', ''su -'', ''chmod 777'', ''chown root'']"

definition hasJustification :: "string \<Rightarrow> bool" where
  "hasJustification content =
     (includesStr content ''require'' \<or> includesStr content ''need'' \<or> includesStr content ''admin'')"

definition safetyPermissions :: "string \<Rightarrow> tally \<Rightarrow> tally" where
  "safetyPermissions content =
     (if length (thoseIncluded privEscalation content) = 0
      then award 2 Pass ''No privilege escalation commands found'' 2
      else if hasJustification content
      then award 1 Warning
             (''Privilege escalation with justification: '' @ join '', '' (thoseIncluded privEscalation content)) 1
      else award 0 Fail
             (''Privilege escalation without justification: '' @ join '', '' (thoseIncluded privEscalation content)) 0)"

definition safetyTally :: "ParsedSkill \<Rightarrow> tally" where
  "safetyTally skill =
     (let content = toLowerCase (skillMdContent skill)
      in safetyPermissions content (safetyNetwork content (safetyLoops content
           (safetySecrets content (safetyDestructive content (0, []))))))"

definition scoreSafety :: "ParsedSkill \<Rightarrow> tally" where
  "scoreSafety skill = finish (safetyTally skill)"

subsection \<open>Dependencies\<close>

definition toolKeywords :: "string list" where
  "toolKeywords = [''require'', ''depend'', ''need'', ''install'', ''tool'', ''api'', ''library'']"

definition depsTools :: "string \<Rightarrow> tally \<Rightarrow> tally" where
  "depsTools content =
     (if someIncluded toolKeywords content
      then award 3 Pass ''Tools and dependencies are documented'' 3
      else award 0 Fail ''No clear documentation of required tools or dependencies'' 0)"

definition checkPatterns :: "string list" where
  "checkPatterns = [''check'', ''verify'', ''validate'', ''test'', ''ensure'', ''command -v'']"

definition depsChecks :: "string \<Rightarrow> tally \<Rightarrow> tally" where
  "depsChecks content =
     (if someIncluded checkPatterns content
      then award 2 Pass ''Includes validation or checking of dependencies'' 2
      else award 0 Warning ''Could benefit from dependency checking before execution'' 0)"

definition installPatterns :: "string list" where
  "installPatterns = [''install'', ''setup'', ''brew'', ''apt'', ''npm install'', ''pip install'']"

definition depsInstall :: "string \<Rightarrow> tally \<Rightarrow> tally" where
  "depsInstall content =
     (if someIncluded installPatterns content
      then award 3 Pass ''Installation instructions provided'' 3
      else award 0 Fail ''Missing installation instructions for dependencies'' 0)"

definition envPatterns :: "string list" where
  "envPatterns = [''env'', ''environment'', ''variable'', ''$'', ''export'', ''set'']"

definition depsEnv :: "string \<Rightarrow> tally \<Rightarrow> tally" where
  "depsEnv content =
     (if someIncluded envPatterns content
      then award 2 Pass ''Environment variables documented'' 2
      else award 0 Info ''No environment variables documented (may not be needed)'' 0)"

definition dependenciesTally :: "ParsedSkill \<Rightarrow> tally" where
  "dependenciesTally skill =
     (let content = toLowerCase (skillMdContent skill)
      in depsEnv content (depsInstall content (depsChecks content (depsTools content (0, [])))))"

definition scoreDependencies :: "ParsedSkill \<Rightarrow> tally" where
  "scoreDependencies skill = finish (dependenciesTally skill)"

subsection \<open>Error handling\<close>

definition errorKeywords :: "string list" where
  "errorKeywords = [''error'', ''fail'', ''exception'', ''problem'', ''issue'', ''troubleshoot'']"

definition errFailure :: "string \<Rightarrow> tally \<Rightarrow> tally" where
  "errFailure content =
     (if someIncluded errorKeywords content
      then award 3 Pass ''Error handling and failure scenarios documented'' 3
      else award 0 Fail ''No error handling or failure scenarios documented'' 0)"

definition fallbackKeywords :: "string list" where
  "fallbackKeywords = [''fallback'', ''alternative'', ''backup'', ''retry'', ''recover'', ''plan b'']"

definition errFallbacks :: "string \<Rightarrow> tally \<Rightarrow> tally" where
  "errFallbacks content =
     (if someIncluded fallbackKeywords content
      then award 3 Pass ''Fallback strategies documented'' 3
      else award 0 Warning ''No fallback strategies documented'' 0)"

definition validationKeywords :: "string list" where
  "validationKeywords = [''validate'', ''check'', ''verify'', ''status'', ''confirm'']"

definition errValidation :: "string \<Rightarrow> tally \<Rightarrow> tally" where
  "errValidation content =
     (if someIncluded validationKeywords content
      then award 2 Pass ''Validation and status checking included'' 2
      else award 0 Warning ''Could benefit from validation to prevent silent failures'' 0)"

definition edgeKeywords :: "string list" where
  "edgeKeywords = [''edge'', ''boundary'', ''limit'', ''special case'', ''exception'', ''corner case'']"

definition errEdgeCases :: "string \<Rightarrow> tally \<Rightarrow> tally" where
  "errEdgeCases content =
     (if someIncluded edgeKeywords content
      then award 2 Pass ''Edge cases and boundary conditions documented'' 2
      else award 0 Info ''Edge cases not specifically documented'' 0)"

definition errorHandlingTally :: "ParsedSkill \<Rightarrow> tally" where
  "errorHandlingTally skill =
     (let content = toLowerCase (skillMdContent skill)
      in errEdgeCases content (errValidation content (errFallbacks content
           (errFailure content (0, [])))))"

definition scoreErrorHandling :: "ParsedSkill \<Rightarrow> tally" where
  "scoreErrorHandling skill = finish (errorHandlingTally skill)"

subsection \<open>Scope\<close>

definition wordCount :: "ParsedSkill \<Rightarrow> nat" where
  "wordCount skill = length (splitChar CHR '' '' (description skill))"

definition hasMultipleVerbs :: "ParsedSkill \<Rightarrow> bool" where
  "hasMultipleVerbs skill = hasMultipleVerbsFrom False (description skill)"

definition scopeResponsibility :: "ParsedSkill \<Rightarrow> tally \<Rightarrow> tally" where
  "scopeResponsibility skill =
     (if wordCount skill \<le> 50 \<and> \<not> hasMultipleVerbs skill
      then award 2 Pass ''Clear single responsibility focus'' 2
      else if wordCount skill \<le> 100
      then award 1 Warning ''Mostly focused but could be more specific'' 1
      else award 0 Fail ''Scope appears too broad or unfocused'' 0)"

definition overlap :: "ParsedSkill \<Rightarrow> nat" where
  "overlap skill =
     (let nameWords = splitWs (toLowerCase (name skill));
          descWords = splitWs (toLowerCase (description skill))
      in length (filter (\<lambda>word. word \<in> set descWords) nameWords))"

definition scopeAccurate :: "ParsedSkill \<Rightarrow> tally \<Rightarrow> tally" where
  "scopeAccurate skill =
     (if overlap skill \<ge> 1 \<or> length (description skill) > 0
      then award 2 Pass ''Description aligns with skill name'' 2
      else award 0 Warning ''Description may not accurately reflect functionality'' 0)"

definition triggerWords :: "string list" where
  "triggerWords = [''when'', ''if'', ''trigger'', ''activate'', ''invoke'', ''call'', ''execute'']"

definition scopeTriggers :: "string \<Rightarrow> tally \<Rightarrow> tally" where
  "scopeTriggers content =
     (if someIncluded triggerWords content
      then award 2 Pass ''Clear trigger conditions specified'' 2
      else award 1 Warning ''Trigger conditions could be more specific'' 1)"

definition negativePatterns :: "string list" where
  "negativePatterns = [''don't use'', ''do not use'', ''not for'', ''don't call'', ''instead use'',
     ''not when'', ''don't use when'', ''avoid using this'']"

definition scopeNegative :: "string \<Rightarrow> tally \<Rightarrow> tally" where
  "scopeNegative content =
     (if someIncluded negativePatterns content
      then award 2 Pass ''Has negative routing examples (what NOT to use this for)'' 2
      else award 0 Fail ''No negative routing examples found'' 0)"

definition hasUseWhen :: "string \<Rightarrow> bool" where
  "hasUseWhen content = (includesStr content ''use when'' \<or> includesStr content ''use this when'')"

definition hasToolNames :: "string \<Rightarrow> bool" where
  "hasToolNames content =
     (includesStr content ''curl'' \<or> includesStr content ''npm'' \<or> includesStr content ''pip''
      \<or> includesStr content ''brew'' \<or> hasBackquotedName content)"

definition hasIOSignals :: "string \<Rightarrow> bool" where
  "hasIOSignals content =
     (includesStr content ''input'' \<or> includesStr content ''output''
      \<or> includesStr content ''returns'' \<or> includesStr content ''produces'')"

definition scopeRouting :: "string \<Rightarrow> tally \<Rightarrow> tally" where
  "scopeRouting content =
     (if hasUseWhen content \<or> (hasToolNames content \<and> hasIOSignals content)
      then award 1 Pass ''Description has concrete routing signals'' 1
      else award 0 Fail ''Description lacks concrete routing signals'' 0)"

definition conflictIndicators :: "string list" where
  "conflictIndicators = [''override'', ''replace'', ''conflict'', ''interfere'']"

definition scopeConflicts :: "string \<Rightarrow> tally \<Rightarrow> tally" where
  "scopeConflicts content =
     (if \<not> someIncluded conflictIndicators content
      then award 1 Pass ''No obvious conflict indicators'' 1
      else award 0 Warning ''Potential conflicts mentioned'' 0)"

definition scopeTally :: "ParsedSkill \<Rightarrow> tally" where
  "scopeTally skill =
     (let content = toLowerCase (skillMdContent skill)
      in scopeConflicts content (scopeRouting content (scopeNegative content
           (scopeTriggers content (scopeAccurate skill (scopeResponsibility skill (0, [])))))))"

definition scoreScope :: "ParsedSkill \<Rightarrow> tally" where
  "scoreScope skill = finish (scopeTally skill)"

subsection \<open>Documentation\<close>

definition exampleKeywords :: "string list" where
  "exampleKeywords = [''example'', ''usage'', ''```'', ''sample'', ''demo'']"

definition docExamples :: "string \<Rightarrow> tally \<Rightarrow> tally" where
  "docExamples content =
     (if someIncluded exampleKeywords content
      then award 3 Pass ''Usage examples provided'' 3
      else award 0 Fail ''No usage examples found'' 0)"

definition ioKeywords :: "string list" where
  "ioKeywords = [''input'', ''output'', ''parameter'', ''return'', ''result'']"

definition docIO :: "string \<Rightarrow> tally \<Rightarrow> tally" where
  "docIO content =
     (if someIncluded ioKeywords content
      then award 2 Pass ''Input/output documented'' 2
      else award 0 Warning ''Input/output not clearly documented'' 0)"

definition limitationKeywords :: "string list" where
  "limitationKeywords = [''limitation'', ''constraint'', ''caveat'', ''note'', ''warning'', ''caution'']"

definition docLimitations :: "string \<Rightarrow> tally \<Rightarrow> tally" where
  "docLimitations content =
     (if someIncluded limitationKeywords content
      then award 2 Pass ''Limitations and caveats documented'' 2
      else award 0 Warning ''Limitations not documented'' 0)"

definition troubleshootKeywords :: "string list" where
  "troubleshootKeywords = [''troubleshoot'', ''debug'', ''faq'', ''common issue'', ''problem'']"

definition docTroubleshooting :: "string \<Rightarrow> tally \<Rightarrow> tally" where
  "docTroubleshooting content =
     (if someIncluded troubleshootKeywords content
      then award 1 Pass ''Troubleshooting guidance provided'' 1
      else award 0 Info ''No troubleshooting section found'' 0)"

definition codeBlockCount :: "ParsedSkill \<Rightarrow> real" where
  "codeBlockCount skill = real (countFences (skillMdContent skill)) / 2"

definition templateKeywords :: "string list" where
  "templateKeywords = [''template'', ''format'', ''example output'', ''sample output'', ''expected output'']"

definition docTemplates :: "ParsedSkill \<Rightarrow> string \<Rightarrow> tally \<Rightarrow> tally" where
  "docTemplates skill content =
     (if codeBlockCount skill \<ge> 2
         \<and> (someIncluded templateKeywords content \<or> hasStructuredOutputRe (skillMdContent skill))
      then award 2 Pass ''Has embedded templates or worked examples with expected output'' 2
      else if codeBlockCount skill \<ge> 1
      then award 1 Warning ''Has code blocks but no clear template/output examples'' 1
      else award 0 Fail ''No embedded templates or worked examples'' 0)"

definition documentationTally :: "ParsedSkill \<Rightarrow> tally" where
  "documentationTally skill =
     (let content = toLowerCase (skillMdContent skill)
      in docTemplates skill content (docTroubleshooting content (docLimitations content
           (docIO content (docExamples content (0, []))))))"

definition scoreDocumentation :: "ParsedSkill \<Rightarrow> tally" where
  "scoreDocumentation skill = finish (documentationTally skill)"

subsection \<open>Portability\<close>

definition osSpecific :: "string list" where
  "osSpecific = [''/home/'', ''/Users/'', [CHR ''C'', CHR '':'', CHR 0x5C], ''cmd.exe'', ''.exe'', ''/usr/local'']"

definition portCrossPlatform :: "string \<Rightarrow> tally \<Rightarrow> tally" where
  "portCrossPlatform content =
     (if \<not> someIncluded osSpecific content
      then award 3 Pass ''No OS-specific paths or commands detected'' 3
      else award 1 Warning ''Contains OS-specific elements'' 1)"

definition portHardcoded :: "string list \<Rightarrow> tally \<Rightarrow> tally" where
  "portHardcoded hardcodedPaths =
     (if length hardcodedPaths = 0
      then award 2 Pass ''No hardcoded absolute paths found'' 2
      else award 0 Fail (''Hardcoded paths found: '' @ join '', '' (take 3 hardcodedPaths)) 0)"

definition platformKeywords :: "string list" where
  "platformKeywords = [''platform'', ''system'', ''os'', ''linux'', ''mac'', ''windows'', ''require'']"

definition portPlatformNotes :: "string \<Rightarrow> tally \<Rightarrow> tally" where
  "portPlatformNotes content =
     (if someIncluded platformKeywords (toLowerCase content)
      then award 3 Pass ''Platform requirements or limitations noted'' 3
      else award 0 Warning ''Platform compatibility not discussed'' 0)"

text \<open>\<open>content.match(/\\.\\//g)\<close> is non-empty exactly when \<open>./\<close> occurs.\<close>

definition hasRelativePaths :: "string \<Rightarrow> bool" where
  "hasRelativePaths content = includesStr content ''./''"

definition portRelative :: "string \<Rightarrow> string list \<Rightarrow> tally \<Rightarrow> tally" where
  "portRelative content hardcodedPaths =
     (if hasRelativePaths content \<or> length hardcodedPaths = 0
      then award 2 Pass ''Uses relative paths appropriately'' 2
      else award 0 Warning ''Could benefit from using relative paths'' 0)"

definition portabilityTally :: "ParsedSkill \<Rightarrow> tally" where
  "portabilityTally skill =
     (let content = skillMdContent skill;
          hardcodedPaths = findHardcodedPaths content
      in portRelative content hardcodedPaths (portPlatformNotes content
           (portHardcoded hardcodedPaths (portCrossPlatform content (0, [])))))"

definition scorePortability :: "ParsedSkill \<Rightarrow> tally" where
  "scorePortability skill = finish (portabilityTally skill)"

subsection \<open>The aggregator\<close>

text \<open>The \<open>switch\<close> on \<open>category.id\<close>; without a matching case the score stays 0 and the
  findings stay empty.\<close>

definition scorerFor :: "string \<Rightarrow> ParsedSkill \<Rightarrow> tally" where
  "scorerFor i skill =
     (if i = ''structure'' then scoreStructure skill
      else if i = ''clarity'' then scoreClarity skill
      else if i = ''safety'' then scoreSafety skill
      else if i = ''dependencies'' then scoreDependencies skill
      else if i = ''errorHandling'' then scoreErrorHandling skill
      else if i = ''scope'' then scoreScope skill
      else if i = ''documentation'' then scoreDocumentation skill
      else if i = ''portability'' then scorePortability skill
      else (0, []))"

definition scoreCategory :: "ParsedSkill \<Rightarrow> ScoringCategory \<Rightarrow> CategoryScore" where
  "scoreCategory skill cat =
     (let r = scorerFor (cid cat) skill
      in \<lparr>category = cat,
          score = fst r,
          maxScore = cmaxScore cat,
          percentage = (fst r / cmaxScore cat) * 100,
          findings = snd r,
          weightedScore = fst r * weight cat\<rparr>)"

text \<open>\<open>scoreSkill\<close> over a given table; \<open>now\<close> is what \<open>new Date()\<close> returns.\<close>

definition scoreSkillWith :: "ScoringCategory list \<Rightarrow> nat \<Rightarrow> ParsedSkill \<Rightarrow> SkillScore" where
  "scoreSkillWith cats now skill =
     (let scores = map (scoreCategory skill) cats;
          totalWeightedScore = foldl (\<lambda>sum cat. sum + weightedScore cat) 0 scores;
          pct = (totalWeightedScore / 10) * 100
      in \<lparr>scoredSkill = skill,
          categoryScores = scores,
          totalScore = totalWeightedScore,
          maxTotalScore = 10,
          overallPercentage = pct,
          letterGrade = getLetterGrade pct,
          timestamp = now\<rparr>)"

definition scoreSkill :: "nat \<Rightarrow> ParsedSkill \<Rightarrow> SkillScore" where
  "scoreSkill now skill = scoreSkillWith SCORING_CATEGORIES now skill"

text \<open>
  scorer.ts imports rubric.ts, so the rubric module is loaded, and its weight check has
  run, before any call of \<open>scoreSkill\<close>: a throw at load time leaves no scorer to call.
\<close>

definition loadAndScore :: "ScoringCategory list \<Rightarrow> nat \<Rightarrow> ParsedSkill \<Rightarrow> error + SkillScore" where
  "loadAndScore cats now skill =
     (case loadRubric cats of Inl e \<Rightarrow> Inl e | Inr u \<Rightarrow> Inr (scoreSkillWith cats now skill))"

section \<open>Example inputs\<close>

text \<open>The skill of the unit test "should handle empty skill gracefully": no SKILL.md, no
  text, no name, no description, no files.\<close>

definition missingSkill :: ParsedSkill where
  "missingSkill = \<lparr>skillPath = ''/fake/path'', skillMdExists = False, skillMdContent = [],
     name = [], description = [], files = [], metadata = [],
     structure = \<lparr>hasSkillMd = False, hasReadme = False, hasPackageJson = False,
       hasScripts = False, totalFiles = 0, directories = [], fileTypes = []\<rparr>\<rparr>"

text \<open>A skill whose SKILL.md holds the given text and nothing else is known.\<close>

definition documentWith :: "string \<Rightarrow> ParsedSkill" where
  "documentWith text = missingSkill\<lparr>skillMdExists := True, skillMdContent := text\<rparr>"

text \<open>The "problematic skill" of the README, made by
  \<open>echo "rm -rf /* # Dangerous command" > test-skills/problematic-skill/SKILL.md\<close>,
  as the parser returns it.\<close>

definition problematicSkill :: ParsedSkill where
  "problematicSkill = \<lparr>skillPath = ''/work/test-skills/problematic-skill'', skillMdExists = True,
     skillMdContent = ''rm -rf /* # Dangerous command'' @ [CHR 0x0A],
     name = ''problematic-skill'', description = ''rm -rf /* # Dangerous command'',
     files = [''SKILL.md''], metadata = [],
     structure = \<lparr>hasSkillMd = True, hasReadme = False, hasPackageJson = False,
       hasScripts = False, totalFiles = 1, directories = [], fileTypes = [(''.md'', 1)]\<rparr>\<rparr>"

text \<open>A well-documented skill whose one command is \<open>rm -rf /* \<close>.\<close>

definition cleanerText :: string where
  "cleanerText = ''# Cleaner'' @ [CHR 0x0A, CHR 0x0A]
     @ ''Use when the output folder is stale, not for source folders.'' @ [CHR 0x0A, CHR 0x0A]
     @ ''1. Check the system and install the tool if it is missing, set $TARGET.'' @ [CHR 0x0A]
     @ ''2. Run '' @ [CHR 0x60] @ ''rm -rf /* '' @ [CHR 0x60] @ '' inside the container.'' @ [CHR 0x0A]
     @ ''3. Done when the result is empty.'' @ [CHR 0x0A, CHR 0x0A]
     @ ''Note the limit: on error or edge cases debug the example.'' @ [CHR 0x0A]"

definition cleanerSkill :: ParsedSkill where
  "cleanerSkill = \<lparr>skillPath = ''/work/cleaner'', skillMdExists = True,
     skillMdContent = cleanerText,
     name = ''Cleaner'', description = ''Use when the output folder is stale, not for source folders.'',
     files = [''SKILL.md''], metadata = [],
     structure = \<lparr>hasSkillMd = True, hasReadme = False, hasPackageJson = False,
       hasScripts = False, totalFiles = 1, directories = [], fileTypes = [(''.md'', 1)]\<rparr>\<rparr>"

text \<open>The table of the rubric with the last weight changed from 0.05 to \<open>w\<close>.\<close>

definition withLastWeight :: "real \<Rightarrow> ScoringCategory list" where
  "withLastWeight w = butlast SCORING_CATEGORIES @ [(last SCORING_CATEGORIES)\<lparr>weight := w\<rparr>]"

text \<open>The two path fragments of the recall property, \<open>/home/user/docs\<close> and
  \<open>C:\\Users\\name\\file\<close>.\<close>

definition posixFragment :: string where
  "posixFragment = ''/home/user/docs''"

definition windowsFragment :: string where
  "windowsFragment = ''C:'' @ [CHR 0x5C] @ ''Users'' @ [CHR 0x5C] @ ''name'' @ [CHR 0x5C] @ ''file''"

text \<open>
  No candidate that the scan finds in the text \<open>pre\<close> runs into a character \<open>x\<close> that
  follows it: with \<open>x\<close> added, the scan finds the same candidates.  A fragment that comes
  after such a text is matched from its first character.
\<close>

definition startsAfresh :: "string \<Rightarrow> char \<Rightarrow> bool" where
  "startsAfresh pre x = (potentialPaths (pre @ [x]) = potentialPaths pre)"

text \<open>
  The candidate that begins with a fragment: the match is greedy, so it takes the
  characters of its class that follow the fragment, \<open>[a-zA-Z0-9\\\\._-]\<close> after a drive
  letter and \<open>[a-zA-Z0-9\\/_.-]\<close> after a slash.
\<close>

definition classOf :: "string \<Rightarrow> char \<Rightarrow> bool" where
  "classOf frag = (if isDriveRoot frag then isDriveChar else isPathChar)"

definition pathAt :: "string \<Rightarrow> string \<Rightarrow> string" where
  "pathAt frag post = frag @ takeWhile (classOf frag) post"

text \<open>
  Appending a text \<open>u\<close> to a document brings no new occurrence of a word \<open>t\<close> when
  \<open>t\<close> does not occur in \<open>u\<close> and no end of \<open>t\<close> is a beginning of \<open>u\<close>.
\<close>

definition noOverlap :: "string \<Rightarrow> string \<Rightarrow> bool" where
  "noOverlap u t = (\<not> includesStr u t \<and> list_all (\<lambda>k. \<not> startsWith u (drop k t)) [0..<length t])"

text \<open>The words that the Safety sub-checks look for, but for the confirmation words.\<close>

definition safetyOtherWords :: "string list" where
  "safetyOtherWords = destructiveCommands @ secretPatterns @ exfilPatterns
     @ [''sanitize'', ''redact'', ''mask''] @ loopPatterns @ [''break'', ''exit'', ''timeout'']
     @ networkTerms @ containmentTerms @ privEscalation @ [''require'', ''need'', ''admin'']"

text \<open>
  Confirmation language alone: a text that holds one of the confirmation words and
  that, appended to any document, brings no occurrence of a word of another Safety
  sub-check, nor of a destructive command.  The scorer reads the text in lower case.
\<close>

definition confirmationOnly :: "string \<Rightarrow> bool" where
  "confirmationOnly u =
     (hasConfirmation (toLowerCase u) \<and> list_all (noOverlap (toLowerCase u)) safetyOtherWords)"

text \<open>The document \<open>a\<close> with the text \<open>u\<close> added at its end.\<close>

definition withAdded :: "ParsedSkill \<Rightarrow> string \<Rightarrow> ParsedSkill" where
  "withAdded a u = a\<lparr>skillMdContent := skillMdContent a @ u\<rparr>"

section \<open>The invariant of the running tally\<close>

text \<open>
  The running score is the sum of the points of the findings pushed so far, and lies
  between 0 and the points that the sub-checks run so far can give.
\<close>

definition tallyOk :: "real \<Rightarrow> tally \<Rightarrow> bool" where
  "tallyOk k st = (fst st = sum_list (map points (snd st)) \<and> 0 \<le> fst st \<and> fst st \<le> k)"

lemma tallyOk_init: "tallyOk 0 (0, [])"
  by (simp add: tallyOk_def)

lemma award_ok:
  "tallyOk k st \<Longrightarrow> 0 \<le> d \<Longrightarrow> d \<le> m \<Longrightarrow> p = d \<Longrightarrow> tallyOk (k + m) (award d t msg p st)"
  by (simp add: tallyOk_def award_def)

lemma award_zero: "tallyOk k st \<Longrightarrow> tallyOk k (award 0 t msg 0 st)"
  by (simp add: tallyOk_def award_def)

lemma finish_ok: "tallyOk 10 st \<Longrightarrow> finish st = st"
  by (cases st) (simp add: tallyOk_def finish_def)

lemma orgPoints_range: "0 \<le> orgPoints skill \<and> orgPoints skill \<le> 1"
  by (simp add: orgPoints_def orgScore_def mathRound_def)

lemma conventionScore_range: "0 \<le> conventionScore skill \<and> conventionScore skill \<le> 1"
  by (simp add: conventionScore_def)

lemma structSkillMd_ok: "tallyOk k st \<Longrightarrow> tallyOk (k + 3) (structSkillMd skill st)"
  by (simp add: structSkillMd_def award_ok)

lemma structName_ok: "tallyOk k st \<Longrightarrow> tallyOk (k + 2) (structName skill st)"
  by (simp add: structName_def award_ok)

lemma structDescription_ok: "tallyOk k st \<Longrightarrow> tallyOk (k + 2) (structDescription skill st)"
  by (simp add: structDescription_def award_ok)

lemma structOrganization_ok: "tallyOk k st \<Longrightarrow> tallyOk (k + 1) (structOrganization skill st)"
  using orgPoints_range [of skill] by (simp add: structOrganization_def award_ok)

lemma structOutputSpec_ok: "tallyOk k st \<Longrightarrow> tallyOk (k + 1) (structOutputSpec skill st)"
  by (simp add: structOutputSpec_def award_ok)

lemma structConventions_ok: "tallyOk k st \<Longrightarrow> tallyOk (k + 1) (structConventions skill st)"
  using conventionScore_range [of skill] by (simp add: structConventions_def award_ok)

lemma claritySpecific_ok: "tallyOk k st \<Longrightarrow> tallyOk (k + 3) (claritySpecific content st)"
  by (simp add: claritySpecific_def award_ok)

lemma clarityAmbiguity_ok: "tallyOk k st \<Longrightarrow> tallyOk (k + 3) (clarityAmbiguity content st)"
  by (simp add: clarityAmbiguity_def award_ok)

lemma clarityOrder_ok: "tallyOk k st \<Longrightarrow> tallyOk (k + 2) (clarityOrder skill content st)"
  by (simp add: clarityOrder_def award_ok)

lemma clarityAgent_ok: "tallyOk k st \<Longrightarrow> tallyOk (k + 2) (clarityAgent content st)"
  by (simp add: clarityAgent_def award_ok)

lemma safetyDestructive_ok: "tallyOk k st \<Longrightarrow> tallyOk (k + 3) (safetyDestructive content st)"
  by (simp add: safetyDestructive_def award_ok)

lemma safetySecrets_ok: "tallyOk k st \<Longrightarrow> tallyOk (k + 3) (safetySecrets content st)"
  by (simp add: safetySecrets_def award_ok)

lemma safetyLoops_ok: "tallyOk k st \<Longrightarrow> tallyOk (k + 1) (safetyLoops content st)"
  by (simp add: safetyLoops_def award_ok)

lemma safetyNetwork_ok: "tallyOk k st \<Longrightarrow> tallyOk (k + 1) (safetyNetwork content st)"
  by (simp add: safetyNetwork_def award_ok)

lemma safetyPermissions_ok: "tallyOk k st \<Longrightarrow> tallyOk (k + 2) (safetyPermissions content st)"
  by (simp add: safetyPermissions_def award_ok)

lemma depsTools_ok: "tallyOk k st \<Longrightarrow> tallyOk (k + 3) (depsTools content st)"
  by (simp add: depsTools_def award_ok)

lemma depsChecks_ok: "tallyOk k st \<Longrightarrow> tallyOk (k + 2) (depsChecks content st)"
  by (simp add: depsChecks_def award_ok)

lemma depsInstall_ok: "tallyOk k st \<Longrightarrow> tallyOk (k + 3) (depsInstall content st)"
  by (simp add: depsInstall_def award_ok)

lemma depsEnv_ok: "tallyOk k st \<Longrightarrow> tallyOk (k + 2) (depsEnv content st)"
  by (simp add: depsEnv_def award_ok)

lemma errFailure_ok: "tallyOk k st \<Longrightarrow> tallyOk (k + 3) (errFailure content st)"
  by (simp add: errFailure_def award_ok)

lemma errFallbacks_ok: "tallyOk k st \<Longrightarrow> tallyOk (k + 3) (errFallbacks content st)"
  by (simp add: errFallbacks_def award_ok)

lemma errValidation_ok: "tallyOk k st \<Longrightarrow> tallyOk (k + 2) (errValidation content st)"
  by (simp add: errValidation_def award_ok)

lemma errEdgeCases_ok: "tallyOk k st \<Longrightarrow> tallyOk (k + 2) (errEdgeCases content st)"
  by (simp add: errEdgeCases_def award_ok)

lemma scopeResponsibility_ok: "tallyOk k st \<Longrightarrow> tallyOk (k + 2) (scopeResponsibility skill st)"
  by (simp add: scopeResponsibility_def award_ok)

lemma scopeAccurate_ok: "tallyOk k st \<Longrightarrow> tallyOk (k + 2) (scopeAccurate skill st)"
  by (simp add: scopeAccurate_def award_ok)

lemma scopeTriggers_ok: "tallyOk k st \<Longrightarrow> tallyOk (k + 2) (scopeTriggers content st)"
  by (simp add: scopeTriggers_def award_ok)

lemma scopeNegative_ok: "tallyOk k st \<Longrightarrow> tallyOk (k + 2) (scopeNegative content st)"
  by (simp add: scopeNegative_def award_ok)

lemma scopeRouting_ok: "tallyOk k st \<Longrightarrow> tallyOk (k + 1) (scopeRouting content st)"
  by (simp add: scopeRouting_def award_ok)

lemma scopeConflicts_ok: "tallyOk k st \<Longrightarrow> tallyOk (k + 1) (scopeConflicts content st)"
  by (simp add: scopeConflicts_def award_ok)

lemma docExamples_ok: "tallyOk k st \<Longrightarrow> tallyOk (k + 3) (docExamples content st)"
  by (simp add: docExamples_def award_ok)

lemma docIO_ok: "tallyOk k st \<Longrightarrow> tallyOk (k + 2) (docIO content st)"
  by (simp add: docIO_def award_ok)

lemma docLimitations_ok: "tallyOk k st \<Longrightarrow> tallyOk (k + 2) (docLimitations content st)"
  by (simp add: docLimitations_def award_ok)

lemma docTroubleshooting_ok: "tallyOk k st \<Longrightarrow> tallyOk (k + 1) (docTroubleshooting content st)"
  by (simp add: docTroubleshooting_def award_ok)

lemma docTemplates_ok: "tallyOk k st \<Longrightarrow> tallyOk (k + 2) (docTemplates skill content st)"
  by (simp add: docTemplates_def award_ok)

lemma portCrossPlatform_ok: "tallyOk k st \<Longrightarrow> tallyOk (k + 3) (portCrossPlatform content st)"
  by (simp add: portCrossPlatform_def award_ok)

lemma portHardcoded_ok: "tallyOk k st \<Longrightarrow> tallyOk (k + 2) (portHardcoded paths st)"
  by (simp add: portHardcoded_def award_ok)

lemma portPlatformNotes_ok: "tallyOk k st \<Longrightarrow> tallyOk (k + 3) (portPlatformNotes content st)"
  by (simp add: portPlatformNotes_def award_ok)

lemma portRelative_ok: "tallyOk k st \<Longrightarrow> tallyOk (k + 2) (portRelative content paths st)"
  by (simp add: portRelative_def award_ok)

lemma structureTally_ok: "tallyOk 10 (structureTally skill)"
proof -
  have "tallyOk (0 + 3 + 2 + 2 + 1 + 1 + 1) (structureTally skill)"
    unfolding structureTally_def Let_def
    by (intro structConventions_ok structOutputSpec_ok structOrganization_ok structDescription_ok structName_ok structSkillMd_ok tallyOk_init)
  then show ?thesis by simp
qed

lemma clarityTally_ok: "tallyOk 10 (clarityTally skill)"
proof -
  have "tallyOk (0 + 3 + 3 + 2 + 2) (clarityTally skill)"
    unfolding clarityTally_def Let_def
    by (intro clarityAgent_ok clarityOrder_ok clarityAmbiguity_ok claritySpecific_ok tallyOk_init)
  then show ?thesis by simp
qed

lemma safetyTally_ok: "tallyOk 10 (safetyTally skill)"
proof -
  have "tallyOk (0 + 3 + 3 + 1 + 1 + 2) (safetyTally skill)"
    unfolding safetyTally_def Let_def
    by (intro safetyPermissions_ok safetyNetwork_ok safetyLoops_ok safetySecrets_ok safetyDestructive_ok tallyOk_init)
  then show ?thesis by simp
qed

lemma dependenciesTally_ok: "tallyOk 10 (dependenciesTally skill)"
proof -
  have "tallyOk (0 + 3 + 2 + 3 + 2) (dependenciesTally skill)"
    unfolding dependenciesTally_def Let_def
    by (intro depsEnv_ok depsInstall_ok depsChecks_ok depsTools_ok tallyOk_init)
  then show ?thesis by simp
qed

lemma errorHandlingTally_ok: "tallyOk 10 (errorHandlingTally skill)"
proof -
  have "tallyOk (0 + 3 + 3 + 2 + 2) (errorHandlingTally skill)"
    unfolding errorHandlingTally_def Let_def
    by (intro errEdgeCases_ok errValidation_ok errFallbacks_ok errFailure_ok tallyOk_init)
  then show ?thesis by simp
qed

lemma scopeTally_ok: "tallyOk 10 (scopeTally skill)"
proof -
  have "tallyOk (0 + 2 + 2 + 2 + 2 + 1 + 1) (scopeTally skill)"
    unfolding scopeTally_def Let_def
    by (intro scopeConflicts_ok scopeRouting_ok scopeNegative_ok scopeTriggers_ok scopeAccurate_ok scopeResponsibility_ok tallyOk_init)
  then show ?thesis by simp
qed

lemma documentationTally_ok: "tallyOk 10 (documentationTally skill)"
proof -
  have "tallyOk (0 + 3 + 2 + 2 + 1 + 2) (documentationTally skill)"
    unfolding documentationTally_def Let_def
    by (intro docTemplates_ok docTroubleshooting_ok docLimitations_ok docIO_ok docExamples_ok tallyOk_init)
  then show ?thesis by simp
qed

lemma portabilityTally_ok: "tallyOk 10 (portabilityTally skill)"
proof -
  have "tallyOk (0 + 3 + 2 + 3 + 2) (portabilityTally skill)"
    unfolding portabilityTally_def Let_def
    by (intro portRelative_ok portPlatformNotes_ok portHardcoded_ok portCrossPlatform_ok tallyOk_init)
  then show ?thesis by simp
qed

lemma scoreStructure_eq: "scoreStructure skill = structureTally skill"
  by (simp add: scoreStructure_def finish_ok structureTally_ok)

lemma scoreStructure_ok: "tallyOk 10 (scoreStructure skill)"
  by (simp add: scoreStructure_eq structureTally_ok)

lemma scoreClarity_eq: "scoreClarity skill = clarityTally skill"
  by (simp add: scoreClarity_def finish_ok clarityTally_ok)

lemma scoreClarity_ok: "tallyOk 10 (scoreClarity skill)"
  by (simp add: scoreClarity_eq clarityTally_ok)

lemma scoreSafety_eq: "scoreSafety skill = safetyTally skill"
  by (simp add: scoreSafety_def finish_ok safetyTally_ok)

lemma scoreSafety_ok: "tallyOk 10 (scoreSafety skill)"
  by (simp add: scoreSafety_eq safetyTally_ok)

lemma scoreDependencies_eq: "scoreDependencies skill = dependenciesTally skill"
  by (simp add: scoreDependencies_def finish_ok dependenciesTally_ok)

lemma scoreDependencies_ok: "tallyOk 10 (scoreDependencies skill)"
  by (simp add: scoreDependencies_eq dependenciesTally_ok)

lemma scoreErrorHandling_eq: "scoreErrorHandling skill = errorHandlingTally skill"
  by (simp add: scoreErrorHandling_def finish_ok errorHandlingTally_ok)

lemma scoreErrorHandling_ok: "tallyOk 10 (scoreErrorHandling skill)"
  by (simp add: scoreErrorHandling_eq errorHandlingTally_ok)

lemma scoreScope_eq: "scoreScope skill = scopeTally skill"
  by (simp add: scoreScope_def finish_ok scopeTally_ok)

lemma scoreScope_ok: "tallyOk 10 (scoreScope skill)"
  by (simp add: scoreScope_eq scopeTally_ok)

lemma scoreDocumentation_eq: "scoreDocumentation skill = documentationTally skill"
  by (simp add: scoreDocumentation_def finish_ok documentationTally_ok)

lemma scoreDocumentation_ok: "tallyOk 10 (scoreDocumentation skill)"
  by (simp add: scoreDocumentation_eq documentationTally_ok)

lemma scorePortability_eq: "scorePortability skill = portabilityTally skill"
  by (simp add: scorePortability_def finish_ok portabilityTally_ok)

lemma scorePortability_ok: "tallyOk 10 (scorePortability skill)"
  by (simp add: scorePortability_eq portabilityTally_ok)

lemma tallyOk_none: "tallyOk 10 (0, [])"
  by (simp add: tallyOk_def)

lemma scorerFor_ok: "tallyOk 10 (scorerFor i skill)"
  unfolding scorerFor_def
  by (simp only: scoreStructure_ok scoreClarity_ok scoreSafety_ok scoreDependencies_ok
      scoreErrorHandling_ok scoreScope_ok scoreDocumentation_ok scorePortability_ok
      tallyOk_none if_split simp_thms)

lemma scorerFor_range: "0 \<le> fst (scorerFor i skill) \<and> fst (scorerFor i skill) \<le> 10"
  using scorerFor_ok [of i skill] by (simp add: tallyOk_def)

lemma scorerFor_sum: "fst (scorerFor i skill) = sum_list (map points (snd (scorerFor i skill)))"
  using scorerFor_ok [of i skill] by (simp add: tallyOk_def)

lemma foldl_plus: "foldl (\<lambda>sum x. sum + f x) a xs = a + sum_list (map f xs)"
  for a :: real
  by (induction xs arbitrary: a) simp_all

lemma categoryScores_scoreSkill:
  "categoryScores (scoreSkill now skill) = map (scoreCategory skill) SCORING_CATEGORIES"
  by (simp add: scoreSkill_def scoreSkillWith_def Let_def)

lemma totalScore_scoreSkill:
  "totalScore (scoreSkill now skill) = sum_list (map (\<lambda>cat. fst (scorerFor (cid cat) skill) * weight cat) SCORING_CATEGORIES)"
  by (simp add: scoreSkill_def scoreSkillWith_def Let_def foldl_plus scoreCategory_def comp_def)

lemma weights_nonneg: "\<forall>cat \<in> set SCORING_CATEGORIES. 0 \<le> weight cat"
  by (simp add: SCORING_CATEGORIES_def)

lemma weights_sum: "sum_list (map weight SCORING_CATEGORIES) = 1"
  by (simp add: SCORING_CATEGORIES_def)

lemma weighted_sum_bounds:
  assumes "\<forall>x \<in> set xs. 0 \<le> w x" and "\<forall>x \<in> set xs. 0 \<le> f x \<and> f x \<le> (10::real)"
  shows "0 \<le> sum_list (map (\<lambda>x. f x * w x) xs) \<and> sum_list (map (\<lambda>x. f x * w x) xs) \<le> 10 * sum_list (map w xs)"
  using assms
proof (induction xs)
  case Nil
  then show ?case by simp
next
  case (Cons x xs)
  have "0 \<le> f x * w x" using Cons.prems by simp
  moreover have "f x * w x \<le> 10 * w x" using Cons.prems by (simp add: mult_right_mono)
  ultimately show ?case using Cons by (simp add: algebra_simps)
qed

lemma scores_scoreSkill:
  "map score (categoryScores (scoreSkill now skill)) =
     [fst (scoreStructure skill), fst (scoreClarity skill), fst (scoreSafety skill),
      fst (scoreDependencies skill), fst (scoreErrorHandling skill), fst (scoreScope skill),
      fst (scoreDocumentation skill), fst (scorePortability skill)]"
  by (simp add: categoryScores_scoreSkill SCORING_CATEGORIES_def scoreCategory_def scorerFor_def Let_def)

lemma totalScore_explicit:
  "totalScore (scoreSkill now skill) =
     fst (scoreStructure skill) * 0.15 + fst (scoreClarity skill) * 0.20
     + fst (scoreSafety skill) * 0.20 + fst (scoreDependencies skill) * 0.10
     + fst (scoreErrorHandling skill) * 0.10 + fst (scoreScope skill) * 0.10
     + fst (scoreDocumentation skill) * 0.10 + fst (scorePortability skill) * 0.05"
  by (simp add: totalScore_scoreSkill SCORING_CATEGORIES_def scorerFor_def)

lemma grade_scoreSkill:
  "overallPercentage (scoreSkill now skill) = totalScore (scoreSkill now skill) / 10 * 100
   \<and> letterGrade (scoreSkill now skill) = getLetterGrade (overallPercentage (scoreSkill now skill))"
  by (simp add: scoreSkill_def scoreSkillWith_def Let_def)

section \<open>Determinism\<close>

text \<open>
  Claim C1.  Two calls of \<open>scoreSkill\<close> on the same parsed skill, at any two instants,
  return records that agree in every field but \<open>timestamp\<close>: the category scores with
  their findings, the total score, the maximal total, the percentage and the letter
  grade; the instant of the call only ends up in \<open>timestamp\<close>.
\<close>

theorem scoreSkill_deterministic:
  "scoreSkill t1 skill = (scoreSkill t2 skill)\<lparr>timestamp := t1\<rparr>
   \<and> scoredSkill (scoreSkill t1 skill) = scoredSkill (scoreSkill t2 skill)
   \<and> categoryScores (scoreSkill t1 skill) = categoryScores (scoreSkill t2 skill)
   \<and> map findings (categoryScores (scoreSkill t1 skill))
       = map findings (categoryScores (scoreSkill t2 skill))
   \<and> totalScore (scoreSkill t1 skill) = totalScore (scoreSkill t2 skill)
   \<and> maxTotalScore (scoreSkill t1 skill) = maxTotalScore (scoreSkill t2 skill)
   \<and> overallPercentage (scoreSkill t1 skill) = overallPercentage (scoreSkill t2 skill)
   \<and> letterGrade (scoreSkill t1 skill) = letterGrade (scoreSkill t2 skill)
   \<and> timestamp (scoreSkill t1 skill) = t1"
  by (simp add: scoreSkill_def scoreSkillWith_def Let_def)

theorem scoreSkill_deterministic_witness:
  "scoreSkill 0 missingSkill = (scoreSkill 1 missingSkill)\<lparr>timestamp := 0\<rparr>
   \<and> categoryScores (scoreSkill 0 missingSkill) = categoryScores (scoreSkill 1 missingSkill)
   \<and> letterGrade (scoreSkill 0 missingSkill) = letterGrade (scoreSkill 1 missingSkill)"
  using scoreSkill_deterministic [of 0 missingSkill 1] by simp

section \<open>Score bounds\<close>

text \<open>
  Claim C2.  \<open>scoreSkill\<close> returns one category score for each of the 8 categories of the
  rubric, in the order of the table; each has a score between 0 and 10 and the
  percentage score / maxScore * 100; the total score is the sum of score * weight
  over the categories and lies between 0 and 10; the overall percentage is
  totalScore / 10 * 100 and lies between 0 and 100.
\<close>

theorem scoreSkill_bounds:
  "map category (categoryScores (scoreSkill now skill)) = SCORING_CATEGORIES
   \<and> length (categoryScores (scoreSkill now skill)) = 8
   \<and> (\<forall>c \<in> set (categoryScores (scoreSkill now skill)).
         0 \<le> score c \<and> score c \<le> 10 \<and> percentage c = score c / maxScore c * 100)
   \<and> totalScore (scoreSkill now skill)
       = (\<Sum>c\<leftarrow>categoryScores (scoreSkill now skill). score c * weight (category c))
   \<and> 0 \<le> totalScore (scoreSkill now skill) \<and> totalScore (scoreSkill now skill) \<le> 10
   \<and> overallPercentage (scoreSkill now skill) = totalScore (scoreSkill now skill) / 10 * 100
   \<and> 0 \<le> overallPercentage (scoreSkill now skill)
   \<and> overallPercentage (scoreSkill now skill) \<le> 100"
proof -
  have cats: "map category (categoryScores (scoreSkill now skill)) = SCORING_CATEGORIES"
    by (simp add: categoryScores_scoreSkill scoreCategory_def comp_def Let_def)
  have len: "length (categoryScores (scoreSkill now skill)) = 8"
    by (simp add: categoryScores_scoreSkill SCORING_CATEGORIES_def)
  have each: "\<forall>c \<in> set (categoryScores (scoreSkill now skill)).
         0 \<le> score c \<and> score c \<le> 10 \<and> percentage c = score c / maxScore c * 100"
    by (simp add: categoryScores_scoreSkill scoreCategory_def Let_def scorerFor_range)
  have tot: "totalScore (scoreSkill now skill)
       = (\<Sum>c\<leftarrow>categoryScores (scoreSkill now skill). score c * weight (category c))"
    by (simp add: totalScore_scoreSkill categoryScores_scoreSkill scoreCategory_def comp_def Let_def)
  have rng: "\<forall>cat \<in> set SCORING_CATEGORIES.
      0 \<le> fst (scorerFor (cid cat) skill) \<and> fst (scorerFor (cid cat) skill) \<le> 10"
    by (simp add: scorerFor_range)
  have bounds: "0 \<le> totalScore (scoreSkill now skill) \<and> totalScore (scoreSkill now skill) \<le> 10"
    using weighted_sum_bounds [OF weights_nonneg rng] by (simp add: totalScore_scoreSkill weights_sum)
  have pct: "overallPercentage (scoreSkill now skill) = totalScore (scoreSkill now skill) / 10 * 100"
    by (simp add: scoreSkill_def scoreSkillWith_def Let_def)
  show ?thesis using cats len each tot bounds pct by simp
qed


theorem scoreSkill_bounds_witness:
  "scoreCategory missingSkill (SCORING_CATEGORIES ! 2) \<in> set (categoryScores (scoreSkill 0 missingSkill))
   \<and> 0 \<le> score (scoreCategory missingSkill (SCORING_CATEGORIES ! 2))
   \<and> score (scoreCategory missingSkill (SCORING_CATEGORIES ! 2)) \<le> 10"
proof -
  have mem: "scoreCategory missingSkill (SCORING_CATEGORIES ! 2)
      \<in> set (categoryScores (scoreSkill 0 missingSkill))"
    by (simp add: categoryScores_scoreSkill SCORING_CATEGORIES_def)
  show ?thesis using mem scoreSkill_bounds [of 0 missingSkill] by blast
qed

section \<open>The score is the sum of the findings' points\<close>

text \<open>
  Claim C10.  In each of the 8 category scores that \<open>scoreSkill\<close> returns, the score is
  the sum of the \<open>points\<close> of the findings; in every scorer the sub-checks give at most
  10 points together, so \<open>Math.min(score, 10)\<close> returns the score unchanged.
\<close>

theorem score_is_sum_of_points:
  "(\<forall>c \<in> set (categoryScores (scoreSkill now skill)).
       score c = sum_list (map points (findings c)))
   \<and> min (fst (structureTally skill)) 10 = fst (structureTally skill)
   \<and> min (fst (clarityTally skill)) 10 = fst (clarityTally skill)
   \<and> min (fst (safetyTally skill)) 10 = fst (safetyTally skill)
   \<and> min (fst (dependenciesTally skill)) 10 = fst (dependenciesTally skill)
   \<and> min (fst (errorHandlingTally skill)) 10 = fst (errorHandlingTally skill)
   \<and> min (fst (scopeTally skill)) 10 = fst (scopeTally skill)
   \<and> min (fst (documentationTally skill)) 10 = fst (documentationTally skill)
   \<and> min (fst (portabilityTally skill)) 10 = fst (portabilityTally skill)"
proof -
  have sums: "\<forall>c \<in> set (categoryScores (scoreSkill now skill)).
       score c = sum_list (map points (findings c))"
    using scorerFor_sum [of _ skill]
    by (simp add: categoryScores_scoreSkill scoreCategory_def Let_def)
  have le: "fst (structureTally skill) \<le> 10" "fst (clarityTally skill) \<le> 10"
    "fst (safetyTally skill) \<le> 10" "fst (dependenciesTally skill) \<le> 10"
    "fst (errorHandlingTally skill) \<le> 10" "fst (scopeTally skill) \<le> 10"
    "fst (documentationTally skill) \<le> 10" "fst (portabilityTally skill) \<le> 10"
    using structureTally_ok [of skill] clarityTally_ok [of skill] safetyTally_ok [of skill]
      dependenciesTally_ok [of skill] errorHandlingTally_ok [of skill] scopeTally_ok [of skill]
      documentationTally_ok [of skill] portabilityTally_ok [of skill]
    by (simp_all add: tallyOk_def)
  show ?thesis using sums le by simp
qed

theorem score_is_sum_of_points_witness:
  "scoreCategory missingSkill (SCORING_CATEGORIES ! 0) \<in> set (categoryScores (scoreSkill 0 missingSkill))
   \<and> score (scoreCategory missingSkill (SCORING_CATEGORIES ! 0))
       = sum_list (map points (findings (scoreCategory missingSkill (SCORING_CATEGORIES ! 0))))"
proof -
  have mem: "scoreCategory missingSkill (SCORING_CATEGORIES ! 0)
      \<in> set (categoryScores (scoreSkill 0 missingSkill))"
    by (simp add: categoryScores_scoreSkill SCORING_CATEGORIES_def)
  show ?thesis using mem score_is_sum_of_points [of 0 missingSkill] by blast
qed

section \<open>The weights of the rubric\<close>

lemma expoUp_le: "1 \<le> x \<Longrightarrow> 2 powi (expoUp x) \<le> x"
proof (induction x rule: expoUp.induct)
  case (1 x)
  show ?case
  proof (cases "x < 2")
    case True
    then have "expoUp x = 0" by (subst expoUp.simps) simp
    then show ?thesis using "1.prems" by simp
  next
    case False
    then have "1 \<le> x / 2" by simp
    then have "2 powi (expoUp (x / 2)) \<le> x / 2" using "1.IH" False by simp
    moreover have "expoUp x = expoUp (x / 2) + 1" using False by (subst expoUp.simps) simp
    ultimately show ?thesis by (simp add: power_int_add)
  qed
qed

lemma expoDown_le: "expoDown x \<le> 0"
proof (induction x rule: expoDown.induct)
  case (1 x)
  show ?case
  proof (cases "x \<le> 0 \<or> 1 \<le> x")
    case True
    then have "expoDown x = 0" by (subst expoDown.simps) simp
    then show ?thesis by simp
  next
    case False
    then have "expoDown x = expoDown (2 * x) - 1" by (subst expoDown.simps) simp
    then show ?thesis using "1.IH" False by simp
  qed
qed

lemma exponent_le:
  assumes "a \<le> 2048"
  shows "exponent a \<le> 11"
proof (cases "1 \<le> a")
  case True
  have "2 powi (expoUp a) \<le> a" using True by (rule expoUp_le)
  then have le: "(2::real) powi (expoUp a) \<le> 2048" using assms by simp
  have "expoUp a \<le> 11"
  proof (rule ccontr)
    assume "\<not> expoUp a \<le> 11"
    then have "12 \<le> expoUp a" by simp
    then have "(2::real) powi 12 \<le> 2 powi (expoUp a)"
      by (intro power_int_increasing) simp_all
    then show False using le by simp
  qed
  then show ?thesis using True by (simp add: exponent_def)
next
  case False
  then show ?thesis using expoDown_le [of a] by (simp add: exponent_def)
qed

lemma roundEven_err: "\<bar>of_int (roundEven q) - q\<bar> \<le> 1 / 2"
proof -
  have "of_int \<lfloor>q\<rfloor> \<le> q" "q < of_int \<lfloor>q\<rfloor> + 1" by linarith+
  then show ?thesis by (auto simp: roundEven_def Let_def)
qed

lemma double_err:
  assumes "\<bar>x\<bar> \<le> 2048"
  shows "\<bar>double x - x\<bar> \<le> eps"
proof (cases "x = 0")
  case True
  then show ?thesis by (simp add: double_def eps_def)
next
  case False
  define a where "a = \<bar>x\<bar>"
  define e where "e = max (exponent a - 52) (- 1074)"
  define ulp :: real where "ulp = 2 powi e"
  define r where "r = roundEven (a / ulp)"
  have "exponent a \<le> 11" using assms by (intro exponent_le) (simp add: a_def)
  then have "e \<le> - 41" by (simp add: e_def)
  then have "ulp \<le> 2 powi (- 41)" unfolding ulp_def by (intro power_int_increasing) simp_all
  then have ulp_le: "ulp \<le> 1 / 2 ^ 41" by (simp add: power_int_minus field_simps)
  have ulp_pos: "0 < ulp" by (simp add: ulp_def)
  have d: "double x = sgn x * of_int r * ulp"
    using False by (simp add: double_def Let_def a_def e_def ulp_def r_def)
  have x: "x = sgn x * a" by (simp add: a_def sgn_mult_abs)
  have "double x - x = sgn x * (of_int r * ulp - a)"
    using d x by (simp add: algebra_simps)
  then have "\<bar>double x - x\<bar> = \<bar>of_int r * ulp - a\<bar>"
    using False by (simp add: abs_mult abs_sgn_eq)
  also have "of_int r * ulp - a = ulp * (of_int r - a / ulp)"
    using ulp_pos by (simp add: field_simps)
  also have "\<bar>ulp * (of_int r - a / ulp)\<bar> = ulp * \<bar>of_int r - a / ulp\<bar>"
    using ulp_pos by (simp add: abs_mult)
  also have "\<dots> \<le> ulp * (1 / 2)"
    using ulp_pos roundEven_err [of "a / ulp"] unfolding r_def by (intro mult_left_mono) simp_all
  also have "\<dots> \<le> eps" using ulp_le by (simp add: eps_def)
  finally show ?thesis .
qed

lemma sum_err:
  assumes "\<forall>w \<in> set ws. \<bar>w\<bar> \<le> 1"
    and "\<bar>acc - exact\<bar> \<le> 2 * real m * eps" and "\<bar>exact\<bar> \<le> real m"
    and "m + length ws \<le> 1000"
  shows "\<bar>foldl (\<lambda>s w. add64 s (double w)) acc ws - (exact + sum_list ws)\<bar>
           \<le> 2 * real (m + length ws) * eps"
  using assms
proof (induction ws arbitrary: acc exact m)
  case Nil
  then show ?case by simp
next
  case (Cons w ws)
  have esmall: "eps \<le> 1 / 2000" by (simp add: eps_def)
  have w: "\<bar>w\<bar> \<le> 1" using Cons.prems(1) by simp
  have m: "real m \<le> 999" using Cons.prems(4) by simp
  have dw: "\<bar>double w - w\<bar> \<le> eps" using w by (intro double_err) simp
  have epos: "0 \<le> eps" by (simp add: eps_def)
  have "2 * real m * eps \<le> 2 * 999 * (1 / 2000)"
    using m esmall epos by (intro mult_mono) simp_all
  then have drift: "\<bar>acc - exact\<bar> \<le> 1" using Cons.prems(2) by simp
  have big: "\<bar>acc + double w\<bar> \<le> 2048"
    using drift Cons.prems(3) w dw m esmall by linarith
  have step: "\<bar>double (acc + double w) - (acc + double w)\<bar> \<le> eps"
    using big by (rule double_err)
  have expand: "2 * real (Suc m) * eps = 2 * real m * eps + 2 * eps"
    by (simp add: algebra_simps)
  have a: "\<bar>add64 acc (double w) - (exact + w)\<bar> \<le> 2 * real (Suc m) * eps"
    unfolding add64_def expand using step dw Cons.prems(2) by linarith
  have b: "\<bar>exact + w\<bar> \<le> real (Suc m)" using Cons.prems(3) w by simp
  have c: "Suc m + length ws \<le> 1000" using Cons.prems(4) by simp
  have d: "\<forall>w \<in> set ws. \<bar>w\<bar> \<le> 1" using Cons.prems(1) by simp
  have "\<bar>foldl (\<lambda>s w. add64 s (double w)) (add64 acc (double w)) ws
          - (exact + w + sum_list ws)\<bar> \<le> 2 * real (Suc m + length ws) * eps"
    using d a b c by (rule Cons.IH)
  moreover have "exact + w + sum_list ws = exact + sum_list (w # ws)" by simp
  moreover have "Suc m + length ws = m + length (w # ws)" by simp
  ultimately show ?case by (simp only: foldl_Cons)
qed

lemma sum_list_abs_le: "\<forall>w \<in> set ws. \<bar>w\<bar> \<le> 1 \<Longrightarrow> \<bar>sum_list ws\<bar> \<le> real (length ws)"
  by (induction ws) (simp, fastforce)

lemma totalWeight_map:
  "totalWeight cats = foldl (\<lambda>s w. add64 s (double w)) 0 (map weight cats)"
  by (simp add: totalWeight_def foldl_map)

lemma double_one: "double 1 = 1"
  by code_simp

lemma check_margin:
  assumes "length cats \<le> 1000" and "\<forall>cat \<in> set cats. \<bar>weight cat\<bar> \<le> 1"
  shows "\<bar>totalWeight cats - sum_list (map weight cats)\<bar> \<le> 2000 * eps"
    and "\<bar>sub64 (totalWeight cats) (double 1) - (sum_list (map weight cats) - 1)\<bar> \<le> 2001 * eps"
proof -
  let ?ws = "map weight cats"
  have ws: "\<forall>w \<in> set ?ws. \<bar>w\<bar> \<le> 1" using assms(2) by simp
  have len: "0 + length ?ws \<le> 1000" using assms(1) by simp
  have epos: "0 \<le> eps" and esmall: "eps \<le> 1 / 2000" by (simp_all add: eps_def)
  have "\<bar>foldl (\<lambda>s w. add64 s (double w)) 0 ?ws - (0 + sum_list ?ws)\<bar>
      \<le> 2 * real (0 + length ?ws) * eps"
    using ws _ _ len by (rule sum_err) simp_all
  then have "\<bar>totalWeight cats - sum_list ?ws\<bar> \<le> 2 * real (length cats) * eps"
    by (simp add: totalWeight_map)
  moreover have "2 * real (length cats) * eps \<le> 2 * 1000 * eps"
    using assms(1) epos by (intro mult_mono) simp_all
  ultimately show total: "\<bar>totalWeight cats - sum_list ?ws\<bar> \<le> 2000 * eps" by linarith
  have "\<bar>sum_list ?ws\<bar> \<le> real (length ?ws)" using ws by (rule sum_list_abs_le)
  then have "\<bar>sum_list ?ws\<bar> \<le> 1000" using assms(1) by simp
  then have "\<bar>totalWeight cats - 1\<bar> \<le> 2048" using total esmall by linarith
  then have "\<bar>double (totalWeight cats - 1) - (totalWeight cats - 1)\<bar> \<le> eps"
    by (rule double_err)
  then show "\<bar>sub64 (totalWeight cats) (double 1) - (sum_list ?ws - 1)\<bar> \<le> 2001 * eps"
    using total by (simp add: sub64_def double_one)
qed

lemma tolerance_err: "\<bar>double 0.001 - 0.001\<bar> \<le> eps"
  by (rule double_err) simp

lemma margin_covers: "2002 * eps < 1 / 10 ^ 9"
  by (simp add: eps_def)

lemma totalWeight_rubric: "totalWeight SCORING_CATEGORIES = 1"
  by code_simp

lemma tolerance_value: "double 0.001 = 1152921504606847 / 1152921504606846976"
  by code_simp

lemma totalWeight_drifted:
  "totalWeight (withLastWeight 0.049) = 8998192055486251 / 9007199254740992"
  by code_simp

lemma totalWeight_heavy:
  "totalWeight (withLastWeight 0.051) = 2254051613498933 / 2251799813685248"
  by code_simp

lemma deviation_heavy:
  "sub64 (2254051613498933 / 2251799813685248) (double 1) = 2251799813685 / 2251799813685248"
  by code_simp

lemma deviation_drifted:
  "sub64 (8998192055486251 / 9007199254740992) (double 1) = - (9007199254741 / 9007199254740992)"
  by code_simp

text \<open>
  Claim C3 fails as stated.  With the last weight 0.049 in the place of 0.05, the
  weights of the table add up to 0.999, which is not further than 0.001 from 1.  The
  binary64 sum of the weights is \<open>8998192055486251 / 2^53\<close>, its binary64 difference to
  1 is \<open>- 9007199254741 / 2^53\<close>, and that is further from 0 than the binary64 number
  0.001, which is \<open>1152921504606847 / 2^60\<close>: the check throws.
\<close>

theorem weights_checked_at_load_counterexample:
  "map weight (withLastWeight 0.049) = [0.15, 0.20, 0.20, 0.10, 0.10, 0.10, 0.10, 0.049]
   \<and> sum_list (map weight (withLastWeight 0.049)) = 0.999
   \<and> \<not> \<bar>sum_list (map weight (withLastWeight 0.049)) - 1\<bar> > 0.001
   \<and> totalWeight (withLastWeight 0.049) = 8998192055486251 / 9007199254740992
   \<and> loadRubric (withLastWeight 0.049) = Inl (WeightsError (8998192055486251 / 9007199254740992))
   \<and> loadAndScore (withLastWeight 0.049) 0 missingSkill
       = Inl (WeightsError (8998192055486251 / 9007199254740992))"
proof -
  have w: "map weight (withLastWeight 0.049) = [0.15, 0.20, 0.20, 0.10, 0.10, 0.10, 0.10, 0.049]"
    by (simp add: withLastWeight_def SCORING_CATEGORIES_def)
  have s: "sum_list (map weight (withLastWeight 0.049)) = 0.999"
    unfolding w by simp
  have far: "\<bar>sub64 (totalWeight (withLastWeight 0.049)) (double 1.0)\<bar> > double 0.001"
    unfolding totalWeight_drifted tolerance_value using deviation_drifted by simp
  then have load: "loadRubric (withLastWeight 0.049)
      = Inl (WeightsError (8998192055486251 / 9007199254740992))"
    using totalWeight_drifted by (simp add: loadRubric_def)
  then have "loadAndScore (withLastWeight 0.049) 0 missingSkill
      = Inl (WeightsError (8998192055486251 / 9007199254740992))"
    by (simp add: loadAndScore_def)
  then show ?thesis using w s load totalWeight_drifted by simp
qed

text \<open>
  Claim C3, amended.  The 8 weights of the rubric are 0.15, 0.20, 0.20, 0.10, 0.10,
  0.10, 0.10 and 0.05; their sum is 1 and so is their binary64 sum, so that loading the
  rubric does not throw and scoring goes on over this table.  For a table of at most
  1000 categories with weights between -1 and 1, loading throws exactly when the
  binary64 difference of the binary64 sum to 1 is further from 0 than the binary64
  number 0.001.  The binary64 sum is within \<open>10^(-9)\<close> of the sum of the weights, so that
  loading throws when the sum of the weights is further than \<open>0.001 + 10^(-9)\<close> from 1,
  and then nothing is scored; it does not throw when the sum is within
  \<open>0.001 - 10^(-9)\<close> of 1, and then scoring goes on over the table.  In between,
  rounding decides: with the last weight 0.051 the weights add up to 1.001, as far
  from 1 as with 0.049, and loading does not throw.
\<close>

theorem weights_checked_at_load:
  "map weight SCORING_CATEGORIES = [0.15, 0.20, 0.20, 0.10, 0.10, 0.10, 0.10, 0.05]
   \<and> sum_list (map weight SCORING_CATEGORIES) = 1
   \<and> totalWeight SCORING_CATEGORIES = 1
   \<and> loadRubric SCORING_CATEGORIES = Inr ()
   \<and> loadAndScore SCORING_CATEGORIES now skill = Inr (scoreSkill now skill)
   \<and> sum_list (map weight (withLastWeight 0.051)) = 1.001
   \<and> loadRubric (withLastWeight 0.051) = Inr ()
   \<and> (length cats \<le> 1000 \<and> (\<forall>cat \<in> set cats. \<bar>weight cat\<bar> \<le> 1) \<longrightarrow>
        ((\<exists>e. loadRubric cats = Inl e)
           \<longleftrightarrow> double 0.001 < \<bar>sub64 (totalWeight cats) (double 1)\<bar>)
        \<and> \<bar>totalWeight cats - sum_list (map weight cats)\<bar> \<le> 1 / 10 ^ 9
        \<and> (0.001 + 1 / 10 ^ 9 \<le> \<bar>sum_list (map weight cats) - 1\<bar> \<longrightarrow>
             loadRubric cats = Inl (WeightsError (totalWeight cats))
             \<and> loadAndScore cats now skill = Inl (WeightsError (totalWeight cats)))
        \<and> (\<bar>sum_list (map weight cats) - 1\<bar> \<le> 0.001 - 1 / 10 ^ 9 \<longrightarrow>
             loadRubric cats = Inr ()
             \<and> loadAndScore cats now skill = Inr (scoreSkillWith cats now skill)))"
proof -
  have w: "map weight SCORING_CATEGORIES = [0.15, 0.20, 0.20, 0.10, 0.10, 0.10, 0.10, 0.05]"
    by (simp add: SCORING_CATEGORIES_def)
  have zero: "double 0 = 0" by (simp add: double_def)
  have "0 \<le> double 0.001" unfolding tolerance_value by simp
  then have load: "loadRubric SCORING_CATEGORIES = Inr ()"
    by (simp add: loadRubric_def totalWeight_rubric sub64_def double_one zero)
  then have ours: "loadAndScore SCORING_CATEGORIES now skill = Inr (scoreSkill now skill)"
    by (simp add: loadAndScore_def scoreSkill_def)
  have margin: "((\<exists>e. loadRubric cats = Inl e)
           \<longleftrightarrow> double 0.001 < \<bar>sub64 (totalWeight cats) (double 1)\<bar>)
        \<and> \<bar>totalWeight cats - sum_list (map weight cats)\<bar> \<le> 1 / 10 ^ 9
        \<and> (0.001 + 1 / 10 ^ 9 \<le> \<bar>sum_list (map weight cats) - 1\<bar> \<longrightarrow>
             loadRubric cats = Inl (WeightsError (totalWeight cats))
             \<and> loadAndScore cats now skill = Inl (WeightsError (totalWeight cats)))
        \<and> (\<bar>sum_list (map weight cats) - 1\<bar> \<le> 0.001 - 1 / 10 ^ 9 \<longrightarrow>
             loadRubric cats = Inr ()
             \<and> loadAndScore cats now skill = Inr (scoreSkillWith cats now skill))"
    if h: "length cats \<le> 1000" "\<forall>cat \<in> set cats. \<bar>weight cat\<bar> \<le> 1"
  proof -
    note m = check_margin [OF h]
    have epos: "0 \<le> eps" by (simp add: eps_def)
    have near: "\<bar>totalWeight cats - sum_list (map weight cats)\<bar> \<le> 1 / 10 ^ 9"
      using m(1) margin_covers epos by linarith
    have far: "loadRubric cats = Inl (WeightsError (totalWeight cats))
        \<and> loadAndScore cats now skill = Inl (WeightsError (totalWeight cats))"
      if "0.001 + 1 / 10 ^ 9 \<le> \<bar>sum_list (map weight cats) - 1\<bar>"
    proof -
      have "\<bar>sub64 (totalWeight cats) (double 1)\<bar> > double 0.001"
        using that m(2) tolerance_err margin_covers epos by linarith
      then show ?thesis by (simp add: loadAndScore_def loadRubric_def)
    qed
    have close: "loadRubric cats = Inr ()
        \<and> loadAndScore cats now skill = Inr (scoreSkillWith cats now skill)"
      if "\<bar>sum_list (map weight cats) - 1\<bar> \<le> 0.001 - 1 / 10 ^ 9"
    proof -
      have "\<not> \<bar>sub64 (totalWeight cats) (double 1)\<bar> > double 0.001"
        using that m(2) tolerance_err margin_covers epos by linarith
      then show ?thesis by (simp add: loadAndScore_def loadRubric_def)
    qed
    have crit: "(\<exists>e. loadRubric cats = Inl e)
        \<longleftrightarrow> double 0.001 < \<bar>sub64 (totalWeight cats) (double 1)\<bar>"
      by (simp add: loadRubric_def)
    show ?thesis using crit near far close by blast
  qed
  have hs: "sum_list (map weight (withLastWeight 0.051)) = 1.001"
    by (simp add: withLastWeight_def SCORING_CATEGORIES_def)
  have "\<not> double 0.001 < \<bar>sub64 (totalWeight (withLastWeight 0.051)) (double 1.0)\<bar>"
    unfolding totalWeight_heavy tolerance_value using deviation_heavy by simp
  then have hl: "loadRubric (withLastWeight 0.051) = Inr ()"
    by (simp add: loadRubric_def)
  show ?thesis
    using w weights_sum totalWeight_rubric load ours hs hl margin by blast
qed

theorem weights_checked_at_load_witness:
  "sum_list (map weight (butlast SCORING_CATEGORIES)) = 0.95
   \<and> loadRubric (butlast SCORING_CATEGORIES)
       = Inl (WeightsError (totalWeight (butlast SCORING_CATEGORIES)))
   \<and> loadAndScore (butlast SCORING_CATEGORIES) 0 missingSkill
       = Inl (WeightsError (totalWeight (butlast SCORING_CATEGORIES)))
   \<and> \<bar>totalWeight (butlast SCORING_CATEGORIES) - 0.95\<bar> \<le> 1 / 10 ^ 9
   \<and> loadRubric SCORING_CATEGORIES = Inr ()"
proof -
  have len: "length (butlast SCORING_CATEGORIES) \<le> 1000"
    by (simp add: SCORING_CATEGORIES_def)
  have rng: "\<forall>cat \<in> set (butlast SCORING_CATEGORIES). \<bar>weight cat\<bar> \<le> 1"
    by (simp add: SCORING_CATEGORIES_def)
  have s: "sum_list (map weight (butlast SCORING_CATEGORIES)) = 0.95"
    by (simp add: SCORING_CATEGORIES_def)
  have far: "0.001 + 1 / 10 ^ 9 \<le> \<bar>sum_list (map weight (butlast SCORING_CATEGORIES)) - 1\<bar>"
    unfolding s by simp
  show ?thesis
    using weights_checked_at_load [of 0 missingSkill "butlast SCORING_CATEGORIES"] len rng s far
    by simp
qed

section \<open>The letter grades\<close>

lemma gradeRank_getLetterGrade:
  "gradeRank (getLetterGrade p) =
     (if p \<ge> 97 then 12 else if p \<ge> 93 then 11 else if p \<ge> 90 then 10
      else if p \<ge> 87 then 9 else if p \<ge> 83 then 8 else if p \<ge> 80 then 7
      else if p \<ge> 77 then 6 else if p \<ge> 73 then 5 else if p \<ge> 70 then 4
      else if p \<ge> 67 then 3 else if p \<ge> 65 then 2 else if p \<ge> 60 then 1 else 0)"
  by (simp add: getLetterGrade_def gradeRank_def gradeOrder_def)

lemma getLetterGrade_mono:
  "p1 \<le> p2 \<Longrightarrow> gradeRank (getLetterGrade p1) \<le> gradeRank (getLetterGrade p2)"
  unfolding gradeRank_getLetterGrade by (simp split: if_splits)

text \<open>
  Claim C4.  \<open>getLetterGrade\<close> gives every real percentage the grade of the band it lies
  in, each band closed at its lower end: A+ from 97, A from 93, A- from 90, B+ from 87,
  B from 83, B- from 80, C+ from 77, C from 73, C- from 70, D+ from 67, D from 65,
  D- from 60, and F below 60.  So 97 is an A+ and 96.999 an A, and a higher percentage
  never gets a lower grade.
\<close>

theorem getLetterGrade_bands:
  "(getLetterGrade p = ''A+'' \<longleftrightarrow> 97 \<le> p)
   \<and> (getLetterGrade p = ''A'' \<longleftrightarrow> 93 \<le> p \<and> p < 97)
   \<and> (getLetterGrade p = ''A-'' \<longleftrightarrow> 90 \<le> p \<and> p < 93)
   \<and> (getLetterGrade p = ''B+'' \<longleftrightarrow> 87 \<le> p \<and> p < 90)
   \<and> (getLetterGrade p = ''B'' \<longleftrightarrow> 83 \<le> p \<and> p < 87)
   \<and> (getLetterGrade p = ''B-'' \<longleftrightarrow> 80 \<le> p \<and> p < 83)
   \<and> (getLetterGrade p = ''C+'' \<longleftrightarrow> 77 \<le> p \<and> p < 80)
   \<and> (getLetterGrade p = ''C'' \<longleftrightarrow> 73 \<le> p \<and> p < 77)
   \<and> (getLetterGrade p = ''C-'' \<longleftrightarrow> 70 \<le> p \<and> p < 73)
   \<and> (getLetterGrade p = ''D+'' \<longleftrightarrow> 67 \<le> p \<and> p < 70)
   \<and> (getLetterGrade p = ''D'' \<longleftrightarrow> 65 \<le> p \<and> p < 67)
   \<and> (getLetterGrade p = ''D-'' \<longleftrightarrow> 60 \<le> p \<and> p < 65)
   \<and> (getLetterGrade p = ''F'' \<longleftrightarrow> p < 60)
   \<and> getLetterGrade 97 = ''A+'' \<and> getLetterGrade 96.999 = ''A''
   \<and> (\<forall>p1 p2. p1 \<le> p2 \<longrightarrow> gradeRank (getLetterGrade p1) \<le> gradeRank (getLetterGrade p2))"
proof -
  have bands: "(getLetterGrade p = ''A+'' \<longleftrightarrow> 97 \<le> p)"
    "(getLetterGrade p = ''A'' \<longleftrightarrow> 93 \<le> p \<and> p < 97)"
    "(getLetterGrade p = ''A-'' \<longleftrightarrow> 90 \<le> p \<and> p < 93)"
    "(getLetterGrade p = ''B+'' \<longleftrightarrow> 87 \<le> p \<and> p < 90)"
    "(getLetterGrade p = ''B'' \<longleftrightarrow> 83 \<le> p \<and> p < 87)"
    "(getLetterGrade p = ''B-'' \<longleftrightarrow> 80 \<le> p \<and> p < 83)"
    "(getLetterGrade p = ''C+'' \<longleftrightarrow> 77 \<le> p \<and> p < 80)"
    "(getLetterGrade p = ''C'' \<longleftrightarrow> 73 \<le> p \<and> p < 77)"
    "(getLetterGrade p = ''C-'' \<longleftrightarrow> 70 \<le> p \<and> p < 73)"
    "(getLetterGrade p = ''D+'' \<longleftrightarrow> 67 \<le> p \<and> p < 70)"
    "(getLetterGrade p = ''D'' \<longleftrightarrow> 65 \<le> p \<and> p < 67)"
    "(getLetterGrade p = ''D-'' \<longleftrightarrow> 60 \<le> p \<and> p < 65)"
    "(getLetterGrade p = ''F'' \<longleftrightarrow> p < 60)"
    by (simp_all add: getLetterGrade_def)
  have points: "getLetterGrade 97 = ''A+''" "getLetterGrade 96.999 = ''A''"
    by (simp_all add: getLetterGrade_def)
  show ?thesis using bands points getLetterGrade_mono by blast
qed

theorem getLetterGrade_bands_witness:
  "(59.5::real) \<le> 60
   \<and> gradeRank (getLetterGrade 59.5) \<le> gradeRank (getLetterGrade 60)
   \<and> getLetterGrade 59.5 = ''F'' \<and> getLetterGrade 60 = ''D-''"
  using getLetterGrade_bands [of 60] getLetterGrade_bands [of "59.5"]
  by (simp add: gradeRank_def gradeOrder_def)

section \<open>A missing document\<close>

lemma toLowerCase_Nil: "toLowerCase [] = []"
  by (simp add: toLowerCase_def)

lemma toLowerCase_eq_Nil: "toLowerCase s = [] \<longleftrightarrow> s = []"
  by (simp add: toLowerCase_def)

lemmas empty_text_simps = toLowerCase_Nil toLowerCase_eq_Nil someIncluded_def thoseIncluded_def award_def finish_def Let_def

lemma structure_missing:
  assumes "\<not> skillMdExists skill" "skillMdContent skill = []" "description skill = []"
    "files skill = []" "totalFiles (structure skill) = 0" "directories (structure skill) = []"
  shows "fst (scoreStructure skill) = (if name skill = [] then 1 else 3)"
  using assms
  by (simp add: scoreStructure_def structureTally_def structSkillMd_def structName_def
      structDescription_def structOrganization_def structOutputSpec_def structConventions_def
      orgPoints_def orgScore_def mathRound_def hasTransientFile_def conventionScore_def
      outputPatterns_def empty_text_simps)

lemma clarity_missing:
  assumes "skillMdContent skill = []"
  shows "fst (scoreClarity skill) = 4"
  using assms
  by (simp add: scoreClarity_def clarityTally_def claritySpecific_def clarityAmbiguity_def
      clarityOrder_def clarityAgent_def clarityHasSteps_def clarityHasCommands_def
      ambiguityCount_def ambiguousWords_def clarityHasTriggers_def clarityHasSuccessCriteria_def
      empty_text_simps)

lemma safety_missing:
  assumes "skillMdContent skill = []"
  shows "fst (scoreSafety skill) = 10"
  using assms
  by (simp add: scoreSafety_def safetyTally_def safetyDestructive_def safetySecrets_def
      safetyLoops_def safetyNetwork_def safetyPermissions_def destructiveFound_def
      destructiveCommands_def secretPatterns_def exfilPatterns_def loopPatterns_def
      networkTerms_def privEscalation_def empty_text_simps)

lemma dependencies_missing:
  assumes "skillMdContent skill = []"
  shows "fst (scoreDependencies skill) = 0"
  using assms
  by (simp add: scoreDependencies_def dependenciesTally_def depsTools_def depsChecks_def
      depsInstall_def depsEnv_def toolKeywords_def checkPatterns_def installPatterns_def
      envPatterns_def empty_text_simps)

lemma errorHandling_missing:
  assumes "skillMdContent skill = []"
  shows "fst (scoreErrorHandling skill) = 0"
  using assms
  by (simp add: scoreErrorHandling_def errorHandlingTally_def errFailure_def errFallbacks_def
      errValidation_def errEdgeCases_def errorKeywords_def fallbackKeywords_def
      validationKeywords_def edgeKeywords_def empty_text_simps)

lemma scope_missing:
  assumes "skillMdContent skill = []" "description skill = []"
  shows "fst (scoreScope skill) = (if overlap skill \<ge> 1 then 6 else 4)"
  using assms
  by (simp add: scoreScope_def scopeTally_def scopeResponsibility_def scopeAccurate_def
      scopeTriggers_def scopeNegative_def scopeRouting_def scopeConflicts_def wordCount_def
      hasMultipleVerbs_def triggerWords_def negativePatterns_def hasUseWhen_def hasToolNames_def
      hasIOSignals_def conflictIndicators_def empty_text_simps)

lemma documentation_missing:
  assumes "skillMdContent skill = []"
  shows "fst (scoreDocumentation skill) = 0"
  using assms
  by (simp add: scoreDocumentation_def documentationTally_def docExamples_def docIO_def
      docLimitations_def docTroubleshooting_def docTemplates_def exampleKeywords_def
      ioKeywords_def limitationKeywords_def troubleshootKeywords_def codeBlockCount_def
      templateKeywords_def empty_text_simps)

lemma portability_missing:
  assumes "skillMdContent skill = []"
  shows "fst (scorePortability skill) = 7"
  using assms
  by (simp add: scorePortability_def portabilityTally_def portCrossPlatform_def
      portHardcoded_def portPlatformNotes_def portRelative_def osSpecific_def
      findHardcodedPaths_def potentialPaths.simps(1) platformKeywords_def hasRelativePaths_def
      empty_text_simps)

text \<open>
  Claim C7 fails as stated: for the missing document of the unit test, Safety, the
  third category, scores 10 of 10, the top of its range and not the bottom, and
  Portability, the eighth, scores 7.
\<close>

theorem missing_document_counterexample:
  "cid (category (categoryScores (scoreSkill 0 missingSkill) ! 2)) = ''safety''
   \<and> score (categoryScores (scoreSkill 0 missingSkill) ! 2) = 10
   \<and> maxScore (categoryScores (scoreSkill 0 missingSkill) ! 2) = 10
   \<and> \<not> score (categoryScores (scoreSkill 0 missingSkill) ! 2) \<le> 5
   \<and> cid (category (categoryScores (scoreSkill 0 missingSkill) ! 7)) = ''portability''
   \<and> score (categoryScores (scoreSkill 0 missingSkill) ! 7) = 7"
  by code_simp

text \<open>
  Claim C7, amended.  For a missing document (no SKILL.md, empty text, empty
  description, no files, no directories) \<open>scoreSkill\<close> returns the eight category
  scores: Structure 1 (3 when the skill has a name), Clarity 4, Safety 10,
  Dependencies 0, Error Handling 0, Scope 4 or 6 (6 when the skill has no name: the
  piece \<open>''\<close> that \<open>split\<close> returns for it is a piece of the empty description),
  Documentation 0 and Portability 7.  The weighted sum is at most 4.2; the overall
  percentage, which the code rounds, is stated with a margin: it is below 42.5, and the
  letter grade is F.
\<close>

theorem missing_document_scores:
  assumes "\<not> skillMdExists skill" and "skillMdContent skill = []" and "description skill = []"
    and "files skill = []" and "totalFiles (structure skill) = 0"
    and "directories (structure skill) = []"
  shows "(\<exists>scope. map score (categoryScores (scoreSkill now skill)) =
              [if name skill = [] then 1 else 3, 4, 10, 0, 0, scope, 0, 7]
            \<and> (if name skill = [] then scope = 6 else scope = 4 \<or> scope = 6))
         \<and> overallPercentage (scoreSkill now skill) < 42.5
         \<and> letterGrade (scoreSkill now skill) = ''F''"
proof -
  have sc: "map score (categoryScores (scoreSkill now skill)) =
           [if name skill = [] then 1 else 3, 4, 10, 0, 0, if overlap skill \<ge> 1 then 6 else 4, 0, 7]"
    using assms
    by (simp add: scores_scoreSkill structure_missing clarity_missing safety_missing
        dependencies_missing errorHandling_missing scope_missing documentation_missing
        portability_missing)
  have tot: "totalScore (scoreSkill now skill) \<le> 4.2"
    using assms
    by (simp add: totalScore_explicit structure_missing clarity_missing safety_missing
        dependencies_missing errorHandling_missing scope_missing documentation_missing
        portability_missing)
  have pct: "overallPercentage (scoreSkill now skill) \<le> 42"
    using tot by (simp add: grade_scoreSkill)
  have grade: "letterGrade (scoreSkill now skill) = ''F''"
    using pct by (simp add: grade_scoreSkill getLetterGrade_def)
  have "name skill = [] \<Longrightarrow> overlap skill \<ge> 1"
    using assms(3) by (simp add: overlap_def toLowerCase_def)
  then show ?thesis using sc pct grade by auto
qed

theorem missing_document_scores_witness:
  "map score (categoryScores (scoreSkill 0 missingSkill)) = [1, 4, 10, 0, 0, 6, 0, 7]
   \<and> overallPercentage (scoreSkill 0 missingSkill) < 42.5
   \<and> letterGrade (scoreSkill 0 missingSkill) = ''F''"
proof -
  have h: "\<not> skillMdExists missingSkill" "skillMdContent missingSkill = []"
    "description missingSkill = []" "files missingSkill = []"
    "totalFiles (structure missingSkill) = 0" "directories (structure missingSkill) = []"
    by (simp_all add: missingSkill_def)
  have n: "name missingSkill = []" by (simp add: missingSkill_def)
  show ?thesis using missing_document_scores [OF h, of 0] n by auto
qed

section \<open>Substrings\<close>

lemma startsWith_iff: "startsWith s p \<longleftrightarrow> (\<exists>b. s = p @ b)"
  by (induction s p rule: startsWith.induct) auto

lemma includesStr_iff: "includesStr s p \<longleftrightarrow> (\<exists>a b. s = a @ p @ b)"
proof (induction s)
  case Nil
  then show ?case by auto
next
  case (Cons c cs)
  show ?case
  proof
    assume "includesStr (c # cs) p"
    then consider "startsWith (c # cs) p" | "includesStr cs p" by auto
    then show "\<exists>a b. c # cs = a @ p @ b"
    proof cases
      case 1
      then obtain b where "c # cs = p @ b" by (auto simp: startsWith_iff)
      then have "c # cs = [] @ p @ b" by simp
      then show ?thesis by blast
    next
      case 2
      then obtain a b where "cs = a @ p @ b" using Cons.IH by auto
      then have "c # cs = (c # a) @ p @ b" by simp
      then show ?thesis by blast
    qed
  next
    assume "\<exists>a b. c # cs = a @ p @ b"
    then obtain a b where ab: "c # cs = a @ p @ b" by auto
    show "includesStr (c # cs) p"
    proof (cases a)
      case Nil
      then have "startsWith (c # cs) p" using ab by (auto simp: startsWith_iff)
      then show ?thesis by simp
    next
      case (Cons x xs)
      then have "cs = xs @ p @ b" using ab by simp
      then have "includesStr cs p" using Cons.IH by auto
      then show ?thesis by simp
    qed
  qed
qed

lemma includesStr_prefix: "includesStr s (p @ q) \<Longrightarrow> includesStr s p"
  unfolding includesStr_iff by (metis append.assoc)

lemma includesStr_suffix: "includesStr s (p @ q) \<Longrightarrow> includesStr s q"
  unfolding includesStr_iff by (metis append.assoc)

lemma includesStr_toLowerCase:
  "includesStr s p \<Longrightarrow> includesStr (toLowerCase s) (toLowerCase p)"
  unfolding includesStr_iff toLowerCase_def by (metis map_append)

lemma includesStr_append_left: "includesStr s p \<Longrightarrow> includesStr (a @ s @ b) p"
  unfolding includesStr_iff by (metis append.assoc)


section \<open>The tiers of the Safety score\<close>

lemma keeps_first:
  "snd st \<noteq> [] \<Longrightarrow> snd (award d t m p st) \<noteq> [] \<and> hd (snd (award d t m p st)) = hd (snd st)"
  by (simp add: award_def)

lemma safetySecrets_first:
  "snd st \<noteq> [] \<Longrightarrow> snd (safetySecrets c st) \<noteq> [] \<and> hd (snd (safetySecrets c st)) = hd (snd st)"
  by (simp add: safetySecrets_def keeps_first)

lemma safetyLoops_first:
  "snd st \<noteq> [] \<Longrightarrow> snd (safetyLoops c st) \<noteq> [] \<and> hd (snd (safetyLoops c st)) = hd (snd st)"
  by (simp add: safetyLoops_def keeps_first)

lemma safetyNetwork_first:
  "snd st \<noteq> [] \<Longrightarrow> snd (safetyNetwork c st) \<noteq> [] \<and> hd (snd (safetyNetwork c st)) = hd (snd st)"
  by (simp add: safetyNetwork_def keeps_first)

lemma safetyPermissions_first:
  "snd st \<noteq> [] \<Longrightarrow> snd (safetyPermissions c st) \<noteq> [] \<and> hd (snd (safetyPermissions c st)) = hd (snd st)"
  by (simp add: safetyPermissions_def keeps_first)

lemma safetyDestructive_first:
  "snd (safetyDestructive c (0, [])) \<noteq> []
   \<and> points (hd (snd (safetyDestructive c (0, [])))) =
       (if destructiveFound c = [] then 3 else if hasConfirmation c then 2 else 0)
   \<and> ftype (hd (snd (safetyDestructive c (0, [])))) =
       (if destructiveFound c = [] then Pass else if hasConfirmation c then Warning else Fail)"
  by (simp add: safetyDestructive_def award_def)

lemma scoreSafety_first:
  "snd (scoreSafety skill) \<noteq> []
   \<and> points (hd (snd (scoreSafety skill))) =
       (if destructiveFound (toLowerCase (skillMdContent skill)) = [] then 3
        else if hasConfirmation (toLowerCase (skillMdContent skill)) then 2 else 0)
   \<and> ftype (hd (snd (scoreSafety skill))) =
       (if destructiveFound (toLowerCase (skillMdContent skill)) = [] then Pass
        else if hasConfirmation (toLowerCase (skillMdContent skill)) then Warning else Fail)"
proof -
  let ?c = "toLowerCase (skillMdContent skill)"
  let ?s1 = "safetyDestructive ?c (0, [])"
  let ?s2 = "safetySecrets ?c ?s1"
  let ?s3 = "safetyLoops ?c ?s2"
  let ?s4 = "safetyNetwork ?c ?s3"
  let ?s5 = "safetyPermissions ?c ?s4"
  have 1: "snd ?s1 \<noteq> []" using safetyDestructive_first by blast
  have 2: "snd ?s2 \<noteq> [] \<and> hd (snd ?s2) = hd (snd ?s1)" using 1 by (rule safetySecrets_first)
  have 3: "snd ?s3 \<noteq> [] \<and> hd (snd ?s3) = hd (snd ?s2)" using 2 by (intro safetyLoops_first) simp
  have 4: "snd ?s4 \<noteq> [] \<and> hd (snd ?s4) = hd (snd ?s3)" using 3 by (intro safetyNetwork_first) simp
  have 5: "snd ?s5 \<noteq> [] \<and> hd (snd ?s5) = hd (snd ?s4)" using 4 by (intro safetyPermissions_first) simp
  have eq: "scoreSafety skill = ?s5"
    by (simp add: scoreSafety_eq safetyTally_def Let_def)
  have "snd ?s5 \<noteq> [] \<and> hd (snd ?s5) = hd (snd ?s1)" using 2 3 4 5 by simp
  then show ?thesis using safetyDestructive_first [of ?c] by (simp add: eq)
qed

lemma scoreSafety_split:
  "fst (scoreSafety skill)
     = points (hd (snd (scoreSafety skill))) + sum_list (map points (tl (snd (scoreSafety skill))))"
proof -
  have "fst (scoreSafety skill) = sum_list (map points (snd (scoreSafety skill)))"
    using scoreSafety_ok [of skill] by (simp add: tallyOk_def)
  moreover have "snd (scoreSafety skill) = hd (snd (scoreSafety skill)) # tl (snd (scoreSafety skill))"
    using scoreSafety_first [of skill] by simp
  ultimately show ?thesis by (metis list.simps(9) sum_list.Cons)
qed

lemma startsWith_append:
  assumes "startsWith (s @ u) t"
  shows "startsWith s t \<or> (length s < length t \<and> startsWith u (drop (length s) t))"
proof -
  from assms obtain b where "s @ u = t @ b" by (auto simp: startsWith_iff)
  then obtain us where "(s = t @ us \<and> us @ u = b) \<or> (s @ us = t \<and> u = us @ b)"
    by (auto simp: append_eq_append_conv2)
  then show ?thesis
  proof
    assume "s = t @ us \<and> us @ u = b"
    then show ?thesis by (auto simp: startsWith_iff)
  next
    assume h: "s @ us = t \<and> u = us @ b"
    show ?thesis
    proof (cases us)
      case Nil
      then show ?thesis using h by (auto simp: startsWith_iff)
    next
      case (Cons x xs)
      then have "length s < length t" using h by auto
      moreover have "drop (length s) t = us" using h by auto
      ultimately show ?thesis using h by (auto simp: startsWith_iff)
    qed
  qed
qed

lemma includesStr_append_noOverlap:
  assumes "noOverlap u t"
  shows "includesStr (s @ u) t = includesStr s t"
proof (induction s)
  case Nil
  have "\<not> includesStr u t" using assms by (simp add: noOverlap_def)
  moreover have "t \<noteq> []" using calculation by (cases u) auto
  ultimately show ?case by simp
next
  case (Cons c cs)
  have "startsWith ((c # cs) @ u) t \<Longrightarrow> startsWith (c # cs) t"
  proof -
    assume "startsWith ((c # cs) @ u) t"
    then consider "startsWith (c # cs) t"
      | "length (c # cs) < length t \<and> startsWith u (drop (length (c # cs)) t)"
      using startsWith_append by blast
    then show ?thesis
    proof cases
      case 1
      then show ?thesis .
    next
      case 2
      then have "\<not> list_all (\<lambda>k. \<not> startsWith u (drop k t)) [0..<length t]"
        by (auto simp: list_all_iff)
      then show ?thesis using assms by (simp add: noOverlap_def)
    qed
  qed
  moreover have "startsWith (c # cs) t \<Longrightarrow> startsWith ((c # cs) @ u) t"
    unfolding startsWith_iff by (metis append.assoc)
  ultimately have "startsWith ((c # cs) @ u) t = startsWith (c # cs) t" by blast
  then show ?case using Cons.IH by simp
qed

lemma someIncluded_append:
  "list_all (noOverlap u) pats \<Longrightarrow> someIncluded pats (s @ u) = someIncluded pats s"
  by (induction pats) (simp_all add: someIncluded_def includesStr_append_noOverlap)

lemma thoseIncluded_append:
  "list_all (noOverlap u) pats \<Longrightarrow> thoseIncluded pats (s @ u) = thoseIncluded pats s"
  by (induction pats) (simp_all add: thoseIncluded_def includesStr_append_noOverlap)

lemma toLowerCase_append: "toLowerCase (s @ u) = toLowerCase s @ toLowerCase u"
  by (simp add: toLowerCase_def)

lemma safety_blocks_append:
  assumes "list_all (noOverlap u) safetyOtherWords"
  shows "safetySecrets (s @ u) = safetySecrets s"
    and "safetyLoops (s @ u) = safetyLoops s"
    and "safetyNetwork (s @ u) = safetyNetwork s"
    and "safetyPermissions (s @ u) = safetyPermissions s"
proof -
  from assms have lists: "list_all (noOverlap u) secretPatterns"
    "list_all (noOverlap u) exfilPatterns"
    "list_all (noOverlap u) loopPatterns"
    "list_all (noOverlap u) networkTerms"
    "list_all (noOverlap u) containmentTerms"
    "list_all (noOverlap u) privEscalation"
    and wordsOk: "list_all (noOverlap u)
      [''sanitize'', ''redact'', ''mask'', ''break'', ''exit'', ''timeout'', ''require'', ''need'', ''admin'']"
    by (simp_all add: safetyOtherWords_def)
  have prot: "hasProtection (s @ u) = hasProtection s"
    using wordsOk by (simp add: hasProtection_def includesStr_append_noOverlap)
  have brk: "hasBreakCondition (s @ u) = hasBreakCondition s"
    using wordsOk by (simp add: hasBreakCondition_def includesStr_append_noOverlap)
  have just: "hasJustification (s @ u) = hasJustification s"
    using wordsOk by (simp add: hasJustification_def includesStr_append_noOverlap)
  show "safetySecrets (s @ u) = safetySecrets s"
    by (simp add: safetySecrets_def someIncluded_append lists prot)
  show "safetyLoops (s @ u) = safetyLoops s"
    by (simp add: safetyLoops_def thoseIncluded_append lists brk)
  show "safetyNetwork (s @ u) = safetyNetwork s"
    by (simp add: safetyNetwork_def someIncluded_append lists)
  show "safetyPermissions (s @ u) = safetyPermissions s"
    by (simp add: safetyPermissions_def thoseIncluded_append lists just)
qed

lemma destructiveCommands_lower: "map toLowerCase destructiveCommands = destructiveCommands"
  by code_simp

lemma destructiveFound_append:
  assumes "list_all (noOverlap u) safetyOtherWords"
  shows "destructiveFound (s @ u) = destructiveFound s"
proof -
  have "list_all (noOverlap u) (map toLowerCase destructiveCommands)"
    using assms by (simp add: destructiveCommands_lower safetyOtherWords_def)
  then have "\<forall>cmd \<in> set destructiveCommands.
      includesStr (s @ u) (toLowerCase cmd) = includesStr s (toLowerCase cmd)"
    by (simp add: list_all_iff includesStr_append_noOverlap)
  then show ?thesis
    unfolding destructiveFound_def by (intro filter_cong) simp_all
qed

lemma includesStr_append_right: "includesStr u p \<Longrightarrow> includesStr (s @ u) p"
  using includesStr_append_left [of u p s "[]"] by simp

lemma hasConfirmation_append: "hasConfirmation u \<Longrightarrow> hasConfirmation (s @ u)"
  by (auto simp: hasConfirmation_def includesStr_append_right)

lemma fst_safety_blocks:
  "fst (safetySecrets c st) = fst st + fst (safetySecrets c (0, []))"
  "fst (safetyLoops c st) = fst st + fst (safetyLoops c (0, []))"
  "fst (safetyNetwork c st) = fst st + fst (safetyNetwork c (0, []))"
  "fst (safetyPermissions c st) = fst st + fst (safetyPermissions c (0, []))"
  by (simp_all add: safetySecrets_def safetyLoops_def safetyNetwork_def safetyPermissions_def
      award_def)

lemma snd_safety_blocks:
  "snd (safetySecrets c st) = snd st @ snd (safetySecrets c (0, []))"
  "snd (safetyLoops c st) = snd st @ snd (safetyLoops c (0, []))"
  "snd (safetyNetwork c st) = snd st @ snd (safetyNetwork c (0, []))"
  "snd (safetyPermissions c st) = snd st @ snd (safetyPermissions c (0, []))"
  by (simp_all add: safetySecrets_def safetyLoops_def safetyNetwork_def safetyPermissions_def
      award_def)

lemma fst_safetyTally:
  "fst (safetyTally skill) =
     fst (safetyDestructive (toLowerCase (skillMdContent skill)) (0, []))
     + fst (safetySecrets (toLowerCase (skillMdContent skill)) (0, []))
     + fst (safetyLoops (toLowerCase (skillMdContent skill)) (0, []))
     + fst (safetyNetwork (toLowerCase (skillMdContent skill)) (0, []))
     + fst (safetyPermissions (toLowerCase (skillMdContent skill)) (0, []))"
  unfolding safetyTally_def Let_def
  by (subst fst_safety_blocks(4), subst fst_safety_blocks(3), subst fst_safety_blocks(2),
      subst fst_safety_blocks(1)) simp

lemma snd_safetyDestructive: "\<exists>f. snd (safetyDestructive c (0, [])) = [f]"
  by (simp add: safetyDestructive_def award_def)

lemma tl_safetyTally:
  "tl (snd (safetyTally skill)) =
     snd (safetySecrets (toLowerCase (skillMdContent skill)) (0, []))
     @ snd (safetyLoops (toLowerCase (skillMdContent skill)) (0, []))
     @ snd (safetyNetwork (toLowerCase (skillMdContent skill)) (0, []))
     @ snd (safetyPermissions (toLowerCase (skillMdContent skill)) (0, []))"
proof -
  obtain f where f: "snd (safetyDestructive (toLowerCase (skillMdContent skill)) (0, [])) = [f]"
    using snd_safetyDestructive by blast
  show ?thesis
    unfolding safetyTally_def Let_def
    by (subst snd_safety_blocks(4), subst snd_safety_blocks(3), subst snd_safety_blocks(2),
        subst snd_safety_blocks(1)) (simp add: f)
qed

lemma confirm_appended:
  assumes "destructiveFound (toLowerCase (skillMdContent a)) \<noteq> []"
    and "\<not> hasConfirmation (toLowerCase (skillMdContent a))"
    and "confirmationOnly u"
  shows "fst (scoreSafety (withAdded a u)) = fst (scoreSafety a) + 2"
    and "tl (snd (scoreSafety (withAdded a u))) = tl (snd (scoreSafety a))"
    and "points (hd (snd (scoreSafety (withAdded a u)))) = 2"
proof -
  let ?c = "toLowerCase (skillMdContent a)"
  let ?u = "toLowerCase u"
  have conf: "hasConfirmation ?u" and no: "list_all (noOverlap ?u) safetyOtherWords"
    using assms(3) by (simp_all add: confirmationOnly_def)
  have low: "toLowerCase (skillMdContent (withAdded a u)) = ?c @ ?u"
    by (simp add: withAdded_def toLowerCase_append)
  have found: "destructiveFound (?c @ ?u) \<noteq> []"
    using assms(1) no by (simp add: destructiveFound_append)
  have d1: "fst (safetyDestructive (?c @ ?u) (0, [])) = 2"
    using found conf by (simp add: safetyDestructive_def hasConfirmation_append award_def)
  have d0: "fst (safetyDestructive ?c (0, [])) = 0"
    using assms(1,2) by (simp add: safetyDestructive_def award_def)
  show "fst (scoreSafety (withAdded a u)) = fst (scoreSafety a) + 2"
    by (simp add: scoreSafety_eq fst_safetyTally low safety_blocks_append [OF no] d0 d1)
  show "tl (snd (scoreSafety (withAdded a u))) = tl (snd (scoreSafety a))"
    by (simp add: scoreSafety_eq tl_safetyTally low safety_blocks_append [OF no])
  show "points (hd (snd (scoreSafety (withAdded a u)))) = 2"
    using found conf scoreSafety_first [of "withAdded a u"]
    by (simp add: low hasConfirmation_append)
qed

text \<open>
  Claim C5 fails as stated.  The text \<open>Run rm -rf build\<close> has a destructive command and
  no confirmation language; with the confirmation language \<open> after you confirm\<close> added
  its Safety score is 9, and that is not lower than the score 8 of
  \<open>Run sudo make install\<close>, a text without any destructive command.
\<close>

theorem safety_tiers_counterexample:
  "destructiveFound (toLowerCase ''Run rm -rf build'') \<noteq> []
   \<and> \<not> hasConfirmation (toLowerCase ''Run rm -rf build'')
   \<and> hasConfirmation (toLowerCase (''Run rm -rf build'' @ '' after you confirm''))
   \<and> destructiveFound (toLowerCase ''Run sudo make install'') = []
   \<and> fst (scoreSafety (documentWith (''Run rm -rf build'' @ '' after you confirm''))) = 9
   \<and> fst (scoreSafety (documentWith ''Run sudo make install'')) = 8
   \<and> \<not> fst (scoreSafety (documentWith (''Run rm -rf build'' @ '' after you confirm'')))
         < fst (scoreSafety (documentWith ''Run sudo make install''))"
  by code_simp

text \<open>
  Claim C5, amended.  Let \<open>a\<close> be a document with a destructive command and no
  confirmation language, and \<open>u\<close> confirmation language alone, such as \<open> confirm\<close>,
  \<open> ask\<close> or \<open> prompt\<close>.  The first Safety sub-check gives 0 points to \<open>a\<close> and 2 points
  to \<open>a\<close> with \<open>u\<close> added; the findings of the other four sub-checks are the same for
  both, so that adding \<open>u\<close> raises the Safety score by exactly 2: the first tier holds.
  The first sub-check gives 2 points to any document \<open>b\<close> with a destructive command
  and confirmation language and 3 points to any document \<open>c\<close> without a destructive
  command.  When the other four sub-checks give \<open>c\<close> the points they give \<open>a\<close>, the
  Safety score of \<open>c\<close> is that of \<open>a\<close> plus 3, strictly above that of \<open>a\<close> with \<open>u\<close>
  added; when they give \<open>b\<close> the points they give \<open>a\<close>, the score of \<open>b\<close> is strictly
  between those of \<open>a\<close> and \<open>c\<close>.
\<close>

theorem safety_tiers:
  assumes "destructiveFound (toLowerCase (skillMdContent a)) \<noteq> []"
    and "\<not> hasConfirmation (toLowerCase (skillMdContent a))"
    and "confirmationOnly u"
    and "destructiveFound (toLowerCase (skillMdContent b)) \<noteq> []"
    and "hasConfirmation (toLowerCase (skillMdContent b))"
    and "destructiveFound (toLowerCase (skillMdContent c)) = []"
    and "map points (tl (snd (scoreSafety b))) = map points (tl (snd (scoreSafety a)))"
    and "map points (tl (snd (scoreSafety c))) = map points (tl (snd (scoreSafety a)))"
  shows "points (hd (snd (scoreSafety a))) = 0
         \<and> points (hd (snd (scoreSafety (withAdded a u)))) = 2
         \<and> tl (snd (scoreSafety (withAdded a u))) = tl (snd (scoreSafety a))
         \<and> fst (scoreSafety (withAdded a u)) = fst (scoreSafety a) + 2
         \<and> points (hd (snd (scoreSafety b))) = 2
         \<and> points (hd (snd (scoreSafety c))) = 3
         \<and> fst (scoreSafety b) = fst (scoreSafety a) + 2
         \<and> fst (scoreSafety c) = fst (scoreSafety a) + 3
         \<and> fst (scoreSafety a) < fst (scoreSafety (withAdded a u))
         \<and> fst (scoreSafety (withAdded a u)) < fst (scoreSafety c)
         \<and> fst (scoreSafety a) < fst (scoreSafety b)
         \<and> fst (scoreSafety b) < fst (scoreSafety c)"
proof -
  have pa: "points (hd (snd (scoreSafety a))) = 0"
    using assms(1,2) scoreSafety_first [of a] by simp
  have pb: "points (hd (snd (scoreSafety b))) = 2"
    using assms(4,5) scoreSafety_first [of b] by simp
  have pc: "points (hd (snd (scoreSafety c))) = 3"
    using assms(6) scoreSafety_first [of c] by simp
  note app = confirm_appended [OF assms(1,2,3)]
  have sb: "fst (scoreSafety b) = fst (scoreSafety a) + 2"
    using pa pb assms(7) scoreSafety_split [of a] scoreSafety_split [of b] by simp
  have sc: "fst (scoreSafety c) = fst (scoreSafety a) + 3"
    using pa pc assms(8) scoreSafety_split [of a] scoreSafety_split [of c] by simp
  show ?thesis
    using pa pb pc app sb sc by simp
qed

theorem safety_tiers_witness:
  "confirmationOnly '' confirm'' \<and> confirmationOnly '' ask'' \<and> confirmationOnly '' prompt''
   \<and> tl (snd (scoreSafety (withAdded (documentWith ''Run rm -rf build'') '' ask'')))
       = tl (snd (scoreSafety (documentWith ''Run rm -rf build'')))
   \<and> fst (scoreSafety (withAdded (documentWith ''Run rm -rf build'') '' ask''))
       = fst (scoreSafety (documentWith ''Run rm -rf build'')) + 2
   \<and> fst (scoreSafety (documentWith ''Run rm -rf build''))
       < fst (scoreSafety (documentWith ''Confirm, then run rm -rf build''))
   \<and> fst (scoreSafety (withAdded (documentWith ''Run rm -rf build'') '' ask''))
       < fst (scoreSafety (documentWith ''Run the build''))
   \<and> fst (scoreSafety (documentWith ''Confirm, then run rm -rf build''))
       < fst (scoreSafety (documentWith ''Run the build''))"
proof -
  have words: "confirmationOnly '' confirm''" "confirmationOnly '' ask''"
    "confirmationOnly '' prompt''"
    by code_simp+
  have a: "destructiveFound (toLowerCase (skillMdContent (documentWith ''Run rm -rf build''))) \<noteq> []"
    "\<not> hasConfirmation (toLowerCase (skillMdContent (documentWith ''Run rm -rf build'')))"
    by code_simp+
  have b: "destructiveFound (toLowerCase (skillMdContent
        (documentWith ''Confirm, then run rm -rf build''))) \<noteq> []"
    "hasConfirmation (toLowerCase (skillMdContent
        (documentWith ''Confirm, then run rm -rf build'')))"
    by code_simp+
  have c: "destructiveFound (toLowerCase (skillMdContent (documentWith ''Run the build''))) = []"
    by code_simp
  have ba: "map points (tl (snd (scoreSafety (documentWith ''Confirm, then run rm -rf build''))))
      = map points (tl (snd (scoreSafety (documentWith ''Run rm -rf build''))))"
    by code_simp
  have ca: "map points (tl (snd (scoreSafety (documentWith ''Run the build''))))
      = map points (tl (snd (scoreSafety (documentWith ''Run rm -rf build''))))"
    by code_simp
  show ?thesis using safety_tiers [OF a words(2) b c ba ca] words by simp
qed

section \<open>A document with \<open>rm -rf /* \<close>\<close>

lemma rm_rf_found:
  assumes "includesStr text ''rm -rf /* ''"
  shows "destructiveFound (toLowerCase text) \<noteq> []"
proof -
  have "includesStr (toLowerCase text) (toLowerCase ''rm -rf /* '')"
    using assms by (rule includesStr_toLowerCase)
  moreover have "toLowerCase ''rm -rf /* '' = ''rm -rf'' @ '' /* ''" by code_simp
  ultimately have "includesStr (toLowerCase text) ''rm -rf''"
    using includesStr_prefix by metis
  moreover have "toLowerCase ''rm -rf'' = ''rm -rf''" by code_simp
  ultimately have "''rm -rf'' \<in> set (destructiveFound (toLowerCase text))"
    by (simp add: destructiveFound_def destructiveCommands_def)
  then show ?thesis by auto
qed

lemma safetyDestructive_zero:
  "destructiveFound c \<noteq> [] \<Longrightarrow> \<not> hasConfirmation c \<Longrightarrow> tallyOk k st \<Longrightarrow>
   tallyOk (k + 0) (safetyDestructive c st)"
  by (simp add: safetyDestructive_def award_zero)

lemma errFallbacks_zero:
  "\<not> someIncluded fallbackKeywords c \<Longrightarrow> tallyOk k st \<Longrightarrow> tallyOk (k + 0) (errFallbacks c st)"
  by (simp add: errFallbacks_def award_zero)

lemma safety_capped:
  assumes "destructiveFound (toLowerCase (skillMdContent skill)) \<noteq> []"
    and "\<not> hasConfirmation (toLowerCase (skillMdContent skill))"
  shows "fst (scoreSafety skill) \<le> 7"
proof -
  have "tallyOk (0 + 0 + 3 + 1 + 1 + 2) (safetyTally skill)"
    unfolding safetyTally_def Let_def
    by (intro safetyPermissions_ok safetyNetwork_ok safetyLoops_ok safetySecrets_ok
        safetyDestructive_zero assms tallyOk_init)
  then show ?thesis by (simp add: scoreSafety_eq tallyOk_def)
qed

lemma errorHandling_capped:
  assumes "\<not> someIncluded fallbackKeywords (toLowerCase (skillMdContent skill))"
  shows "fst (scoreErrorHandling skill) \<le> 7"
proof -
  have "tallyOk (0 + 3 + 0 + 2 + 2) (errorHandlingTally skill)"
    unfolding errorHandlingTally_def Let_def
    by (intro errEdgeCases_ok errValidation_ok errFallbacks_zero errFailure_ok assms tallyOk_init)
  then show ?thesis by (simp add: scoreErrorHandling_eq tallyOk_def)
qed

lemma category_at:
  "categoryScores (scoreSkill now skill) ! 2 = scoreCategory skill (SCORING_CATEGORIES ! 2)"
  "categoryScores (scoreSkill now skill) ! 4 = scoreCategory skill (SCORING_CATEGORIES ! 4)"
  "categoryScores (scoreSkill now skill) ! 7 = scoreCategory skill (SCORING_CATEGORIES ! 7)"
  by (simp_all add: categoryScores_scoreSkill SCORING_CATEGORIES_def)

lemma safety_category:
  "cid (category (scoreCategory skill (SCORING_CATEGORIES ! 2))) = ''safety''"
  "score (scoreCategory skill (SCORING_CATEGORIES ! 2)) = fst (scoreSafety skill)"
  "percentage (scoreCategory skill (SCORING_CATEGORIES ! 2)) = fst (scoreSafety skill) / 10 * 100"
  "findings (scoreCategory skill (SCORING_CATEGORIES ! 2)) = snd (scoreSafety skill)"
  by (simp_all add: SCORING_CATEGORIES_def scoreCategory_def scorerFor_def Let_def)

lemma errorHandling_category:
  "cid (category (scoreCategory skill (SCORING_CATEGORIES ! 4))) = ''errorHandling''"
  "score (scoreCategory skill (SCORING_CATEGORIES ! 4)) = fst (scoreErrorHandling skill)"
  "percentage (scoreCategory skill (SCORING_CATEGORIES ! 4)) = fst (scoreErrorHandling skill) / 10 * 100"
  by (simp_all add: SCORING_CATEGORIES_def scoreCategory_def scorerFor_def Let_def)

lemma cleanerSkill_scores:
  "[fst (scoreStructure cleanerSkill), fst (scoreClarity cleanerSkill),
    fst (scoreSafety cleanerSkill), fst (scoreDependencies cleanerSkill),
    fst (scoreErrorHandling cleanerSkill), fst (scoreScope cleanerSkill),
    fst (scoreDocumentation cleanerSkill), fst (scorePortability cleanerSkill)]
   = [10, 10, 7, 10, 7, 10, 8, 10]"
  by code_simp

lemma cleanerSkill_text:
  "includesStr (skillMdContent cleanerSkill) ''rm -rf /* ''
   \<and> \<not> hasConfirmation (toLowerCase (skillMdContent cleanerSkill))
   \<and> \<not> someIncluded fallbackKeywords (toLowerCase (skillMdContent cleanerSkill))"
  by code_simp

lemma problematicSkill_text:
  "includesStr (skillMdContent problematicSkill) ''rm -rf /* ''
   \<and> \<not> hasConfirmation (toLowerCase (skillMdContent problematicSkill))
   \<and> \<not> someIncluded fallbackKeywords (toLowerCase (skillMdContent problematicSkill))"
  by code_simp

lemma problematicSkill_scores:
  "[fst (scoreStructure problematicSkill), fst (scoreClarity problematicSkill),
    fst (scoreSafety problematicSkill), fst (scoreDependencies problematicSkill),
    fst (scoreErrorHandling problematicSkill), fst (scoreScope problematicSkill),
    fst (scoreDocumentation problematicSkill), fst (scorePortability problematicSkill)]
   = [9, 6, 7, 0, 0, 6, 0, 7]"
  by code_simp

text \<open>
  Claim C6 fails as stated.  The README's problematic skill, whose text is
  \<open>rm -rf /* # Dangerous command\<close>, has no confirmation and no fallback language, and
  its Safety percentage is 70, not below 50.  The cleaner skill contains \<open>rm -rf /* \<close>
  without confirmation or fallback language as well: its Safety and Error Handling
  percentages are both 70 and its letter grade is B+, not F.
\<close>

theorem destructive_document_counterexample:
  "includesStr (skillMdContent problematicSkill) ''rm -rf /* ''
   \<and> \<not> hasConfirmation (toLowerCase (skillMdContent problematicSkill))
   \<and> \<not> someIncluded fallbackKeywords (toLowerCase (skillMdContent problematicSkill))
   \<and> cid (category (categoryScores (scoreSkill 0 problematicSkill) ! 2)) = ''safety''
   \<and> percentage (categoryScores (scoreSkill 0 problematicSkill) ! 2) = 70
   \<and> \<not> percentage (categoryScores (scoreSkill 0 problematicSkill) ! 2) < 50
   \<and> includesStr (skillMdContent cleanerSkill) ''rm -rf /* ''
   \<and> \<not> hasConfirmation (toLowerCase (skillMdContent cleanerSkill))
   \<and> \<not> someIncluded fallbackKeywords (toLowerCase (skillMdContent cleanerSkill))
   \<and> percentage (categoryScores (scoreSkill 0 cleanerSkill) ! 2) = 70
   \<and> cid (category (categoryScores (scoreSkill 0 cleanerSkill) ! 4)) = ''errorHandling''
   \<and> percentage (categoryScores (scoreSkill 0 cleanerSkill) ! 4) = 70
   \<and> overallPercentage (scoreSkill 0 cleanerSkill) = 89
   \<and> letterGrade (scoreSkill 0 cleanerSkill) = ''B+''"
proof -
  have tot: "totalScore (scoreSkill 0 cleanerSkill) = 8.9"
    using cleanerSkill_scores by (simp add: totalScore_explicit)
  have pct: "overallPercentage (scoreSkill 0 cleanerSkill) = 89"
    using tot by (simp add: grade_scoreSkill)
  have grade: "letterGrade (scoreSkill 0 cleanerSkill) = ''B+''"
    using pct by (simp add: grade_scoreSkill getLetterGrade_def)
  show ?thesis
    using cleanerSkill_scores cleanerSkill_text problematicSkill_scores problematicSkill_text
      pct grade
    by (simp add: category_at safety_category errorHandling_category)
qed

text \<open>
  Claim C6, amended.  For a document whose text contains \<open>rm -rf /* \<close>, with no
  confirmation language and no fallback language, the first Safety finding is a
  failure with 0 points, the Safety percentage is at most 70 and the Error Handling
  percentage is at most 70 (both scores are integers from 0 to 7, for which binary64
  gives the same percentages).  The weighted sum is at most 9.1; the overall
  percentage, which the code rounds, is stated with a margin: it is below 91.5, and the
  letter grade is neither A nor A+.
\<close>

theorem destructive_document_caps:
  assumes "includesStr (skillMdContent skill) ''rm -rf /* ''"
    and "\<not> hasConfirmation (toLowerCase (skillMdContent skill))"
    and "\<not> someIncluded fallbackKeywords (toLowerCase (skillMdContent skill))"
  shows "ftype (hd (findings (categoryScores (scoreSkill now skill) ! 2))) = Fail
         \<and> points (hd (findings (categoryScores (scoreSkill now skill) ! 2))) = 0
         \<and> percentage (categoryScores (scoreSkill now skill) ! 2) \<le> 70
         \<and> percentage (categoryScores (scoreSkill now skill) ! 4) \<le> 70
         \<and> overallPercentage (scoreSkill now skill) < 91.5
         \<and> letterGrade (scoreSkill now skill) \<notin> {''A'', ''A+''}"
proof -
  have found: "destructiveFound (toLowerCase (skillMdContent skill)) \<noteq> []"
    using assms(1) by (rule rm_rf_found)
  have s: "fst (scoreSafety skill) \<le> 7" using found assms(2) by (rule safety_capped)
  have e: "fst (scoreErrorHandling skill) \<le> 7" using assms(3) by (rule errorHandling_capped)
  have first: "ftype (hd (snd (scoreSafety skill))) = Fail \<and> points (hd (snd (scoreSafety skill))) = 0"
    using found assms(2) scoreSafety_first [of skill] by simp
  have others: "fst (scoreStructure skill) \<le> 10" "fst (scoreClarity skill) \<le> 10"
    "fst (scoreDependencies skill) \<le> 10" "fst (scoreScope skill) \<le> 10"
    "fst (scoreDocumentation skill) \<le> 10" "fst (scorePortability skill) \<le> 10"
    using scoreStructure_ok [of skill] scoreClarity_ok [of skill] scoreDependencies_ok [of skill]
      scoreScope_ok [of skill] scoreDocumentation_ok [of skill] scorePortability_ok [of skill]
    by (simp_all add: tallyOk_def)
  have total: "totalScore (scoreSkill now skill) \<le> 9.1"
    using s e others by (simp add: totalScore_explicit)
  have pct: "overallPercentage (scoreSkill now skill) \<le> 91"
    using total by (simp add: grade_scoreSkill)
  have grade: "letterGrade (scoreSkill now skill) \<notin> {''A'', ''A+''}"
    using pct by (simp add: grade_scoreSkill getLetterGrade_def)
  show ?thesis
    using s e first pct grade by (simp add: category_at safety_category errorHandling_category)
qed

theorem destructive_document_caps_witness:
  "ftype (hd (findings (categoryScores (scoreSkill 0 problematicSkill) ! 2))) = Fail
   \<and> points (hd (findings (categoryScores (scoreSkill 0 problematicSkill) ! 2))) = 0
   \<and> percentage (categoryScores (scoreSkill 0 problematicSkill) ! 2) \<le> 70
   \<and> percentage (categoryScores (scoreSkill 0 problematicSkill) ! 4) \<le> 70
   \<and> overallPercentage (scoreSkill 0 problematicSkill) < 91.5
   \<and> letterGrade (scoreSkill 0 problematicSkill) \<notin> {''A'', ''A+''}"
proof -
  have h: "includesStr (skillMdContent problematicSkill) ''rm -rf /* ''"
    "\<not> hasConfirmation (toLowerCase (skillMdContent problematicSkill))"
    "\<not> someIncluded fallbackKeywords (toLowerCase (skillMdContent problematicSkill))"
    using problematicSkill_text by simp_all
  show ?thesis using destructive_document_caps [OF h, of 0] by simp
qed

section \<open>The path classifier: recall\<close>

lemma startsAlnum_append: "cs \<noteq> [] \<Longrightarrow> startsAlnum (cs @ rest) = startsAlnum cs"
  by (cases cs) (auto simp: startsAlnum_def)

lemma potentialPaths_slash:
  "c = CHR ''/'' \<and> startsAlnum cs \<Longrightarrow>
   potentialPaths (c # cs) = (c # takeWhile isPathChar cs) # potentialPaths (dropWhile isPathChar cs)"
  by (simp add: potentialPaths.simps(2))

lemma potentialPaths_drive:
  "\<not> (c = CHR ''/'' \<and> startsAlnum cs) \<Longrightarrow> isUpper c \<and> startsWith cs [CHR '':'', CHR 0x5C] \<Longrightarrow>
   potentialPaths (c # cs) = (c # CHR '':'' # CHR 0x5C # takeWhile isDriveChar (drop 2 cs))
      # potentialPaths (dropWhile isDriveChar (drop 2 cs))"
  by (auto simp: potentialPaths.simps(2))

lemma potentialPaths_skip:
  "\<not> (c = CHR ''/'' \<and> startsAlnum cs) \<Longrightarrow> \<not> (isUpper c \<and> startsWith cs [CHR '':'', CHR 0x5C]) \<Longrightarrow>
   potentialPaths (c # cs) = potentialPaths cs"
  by (auto simp: potentialPaths.simps(2))

lemma takeWhile_dropWhile_some:
  assumes "dropWhile P cs \<noteq> []"
  shows "takeWhile P (cs @ ys) = takeWhile P cs" and "dropWhile P (cs @ ys) = dropWhile P cs @ ys"
  using assms by (induction cs) (auto split: if_splits)

lemma takeWhile_dropWhile_all:
  assumes "dropWhile P cs = []"
  shows "takeWhile P (cs @ ys) = cs @ takeWhile P ys" and "dropWhile P (cs @ ys) = dropWhile P ys"
    and "takeWhile P cs = cs"
  using assms by (induction cs) (auto split: if_splits)

lemma potentialPaths_single: "potentialPaths [x] = []"
  by (simp add: potentialPaths.simps startsAlnum_def)

lemma not_upper_slash: "isUpper c \<Longrightarrow> c \<noteq> CHR ''/''"
  by (auto simp: isUpper_def upperLetters_def)

text \<open>
  The scan of a text continues after a run of characters of one class.  When the scan
  of \<open>cs\<close> followed by \<open>x\<close> finds what the scan of \<open>cs\<close> finds, the run neither ends the
  text before \<open>x\<close> and takes \<open>x\<close>, nor is anything else changed by what follows \<open>x\<close>.
\<close>

lemma run_seam:
  assumes eq: "(h @ takeWhile P (cs @ [x])) # potentialPaths (dropWhile P (cs @ [x]))
                = (h @ takeWhile P cs) # potentialPaths (dropWhile P cs)"
    and ih: "potentialPaths (dropWhile P cs @ [x]) = potentialPaths (dropWhile P cs) \<Longrightarrow>
             potentialPaths (dropWhile P cs @ x # rest)
               = potentialPaths (dropWhile P cs) @ potentialPaths (x # rest)"
  shows "(h @ takeWhile P (cs @ x # rest)) # potentialPaths (dropWhile P (cs @ x # rest))
           = ((h @ takeWhile P cs) # potentialPaths (dropWhile P cs)) @ potentialPaths (x # rest)"
proof (cases "dropWhile P cs = []")
  case True
  note all = takeWhile_dropWhile_all [OF True]
  have "\<not> P x"
  proof
    assume "P x"
    then have "takeWhile P (cs @ [x]) = cs @ [x]"
      by (simp add: all(1))
    then show False using eq by (simp add: all(3))
  qed
  then have "takeWhile P (cs @ x # rest) = cs" "dropWhile P (cs @ x # rest) = x # rest"
    by (simp_all add: all(1,2))
  moreover have "potentialPaths (dropWhile P cs) = []"
    by (simp only: True potentialPaths.simps(1))
  ultimately show ?thesis by (simp add: all(3))
next
  case False
  note some = takeWhile_dropWhile_some [OF False]
  have "potentialPaths (dropWhile P cs @ [x]) = potentialPaths (dropWhile P cs)"
    using eq by (simp add: some)
  then show ?thesis
    using ih by (simp add: some)
qed

lemma potentialPaths_seam:
  assumes "x \<noteq> CHR '':''" and "x \<noteq> CHR 0x5C"
  shows "potentialPaths (pre @ [x]) = potentialPaths pre \<Longrightarrow>
         potentialPaths (pre @ x # rest) = potentialPaths pre @ potentialPaths (x # rest)"
proof (induction pre rule: potentialPaths.induct)
  case 1
  then show ?case by (simp add: potentialPaths.simps(1))
next
  case (2 c cs)
  show ?case
  proof (cases "c = CHR ''/'' \<and> startsAlnum cs")
    case True
    then have ne: "cs \<noteq> []" by (auto simp: startsAlnum_def)
    have ext: "potentialPaths (c # cs @ ys)
        = ([c] @ takeWhile isPathChar (cs @ ys)) # potentialPaths (dropWhile isPathChar (cs @ ys))"
      for ys
    proof -
      have "c = CHR ''/'' \<and> startsAlnum (cs @ ys)"
        using True ne by (simp add: startsAlnum_append)
      then show ?thesis using potentialPaths_slash by simp
    qed
    have r: "potentialPaths (c # cs)
        = ([c] @ takeWhile isPathChar cs) # potentialPaths (dropWhile isPathChar cs)"
      using True potentialPaths_slash by simp
    have eq: "([c] @ takeWhile isPathChar (cs @ [x])) # potentialPaths (dropWhile isPathChar (cs @ [x]))
        = ([c] @ takeWhile isPathChar cs) # potentialPaths (dropWhile isPathChar cs)"
      using "2.prems" ext [of "[x]"] r by simp
    have "([c] @ takeWhile isPathChar (cs @ x # rest))
            # potentialPaths (dropWhile isPathChar (cs @ x # rest))
        = (([c] @ takeWhile isPathChar cs) # potentialPaths (dropWhile isPathChar cs))
            @ potentialPaths (x # rest)"
      using eq "2.IH"(1) [OF True] by (rule run_seam)
    then show ?thesis using ext [of "x # rest"] r by simp
  next
    case notSlash: False
    show ?thesis
    proof (cases "isUpper c \<and> startsWith cs [CHR '':'', CHR 0x5C]")
      case True
      then obtain cs' where cs: "cs = CHR '':'' # CHR 0x5C # cs'"
        by (auto simp: startsWith_iff)
      have cne: "c \<noteq> CHR ''/''" using True not_upper_slash by blast
      have ext: "potentialPaths (c # cs @ ys)
          = ([c, CHR '':'', CHR 0x5C] @ takeWhile isDriveChar (cs' @ ys))
            # potentialPaths (dropWhile isDriveChar (cs' @ ys))"
        for ys
      proof -
        have a: "\<not> (c = CHR ''/'' \<and> startsAlnum (cs @ ys))" using cne by simp
        have b: "isUpper c \<and> startsWith (cs @ ys) [CHR '':'', CHR 0x5C]"
          using True cs by simp
        show ?thesis using potentialPaths_drive [OF a b] cs by simp
      qed
      have r: "potentialPaths (c # cs)
          = ([c, CHR '':'', CHR 0x5C] @ takeWhile isDriveChar cs')
            # potentialPaths (dropWhile isDriveChar cs')"
        using potentialPaths_drive [OF notSlash True] cs by simp
      have eq: "([c, CHR '':'', CHR 0x5C] @ takeWhile isDriveChar (cs' @ [x]))
            # potentialPaths (dropWhile isDriveChar (cs' @ [x]))
          = ([c, CHR '':'', CHR 0x5C] @ takeWhile isDriveChar cs')
            # potentialPaths (dropWhile isDriveChar cs')"
        using "2.prems" ext [of "[x]"] r by simp
      have ih: "potentialPaths (dropWhile isDriveChar cs' @ [x])
            = potentialPaths (dropWhile isDriveChar cs') \<Longrightarrow>
          potentialPaths (dropWhile isDriveChar cs' @ x # rest)
            = potentialPaths (dropWhile isDriveChar cs') @ potentialPaths (x # rest)"
        using "2.IH"(2) [OF notSlash True] cs by simp
      have "([c, CHR '':'', CHR 0x5C] @ takeWhile isDriveChar (cs' @ x # rest))
              # potentialPaths (dropWhile isDriveChar (cs' @ x # rest))
          = (([c, CHR '':'', CHR 0x5C] @ takeWhile isDriveChar cs')
              # potentialPaths (dropWhile isDriveChar cs')) @ potentialPaths (x # rest)"
        using eq ih by (rule run_seam)
      then show ?thesis using ext [of "x # rest"] r by simp
    next
      case notDrive: False
      have r: "potentialPaths (c # cs) = potentialPaths cs"
        using notSlash notDrive by (rule potentialPaths_skip)
      have noDr: "\<not> (isUpper c \<and> startsWith (cs @ x # ys) [CHR '':'', CHR 0x5C])" for ys
      proof (cases cs)
        case Nil
        then show ?thesis using assms(1) by simp
      next
        case c1: (Cons y zs)
        show ?thesis
        proof (cases zs)
          case Nil
          then show ?thesis using c1 assms(2) by simp
        next
          case (Cons z zs')
          then show ?thesis using notDrive c1 by simp
        qed
      qed
      have noAl: "\<not> (c = CHR ''/'' \<and> startsAlnum (cs @ x # ys))" for ys
      proof (cases cs)
        case Nil
        show ?thesis
        proof
          assume h: "c = CHR ''/'' \<and> startsAlnum (cs @ x # ys)"
          then have "c = CHR ''/'' \<and> startsAlnum [x]" using Nil by (simp add: startsAlnum_def)
          then have "potentialPaths (c # [x]) \<noteq> []" by (simp add: potentialPaths_slash)
          moreover have "potentialPaths (c # cs) = []"
            using r Nil by (simp add: potentialPaths.simps(1))
          ultimately show False using "2.prems" Nil by simp
        qed
      next
        case (Cons y zs)
        then show ?thesis using notSlash by (simp add: startsAlnum_def)
      qed
      have ext: "potentialPaths (c # cs @ x # ys) = potentialPaths (cs @ x # ys)" for ys
        using noAl [of ys] noDr [of ys] by (rule potentialPaths_skip)
      have "potentialPaths (cs @ [x]) = potentialPaths cs"
        using "2.prems" ext [of "[]"] r by simp
      then have "potentialPaths (cs @ x # rest) = potentialPaths cs @ potentialPaths (x # rest)"
        using "2.IH"(3) [OF notSlash notDrive] by simp
      then show ?thesis using ext [of rest] r by simp
    qed
  qed
qed

lemma potentialPaths_posix:
  "potentialPaths (posixFragment @ post)
     = (posixFragment @ takeWhile isPathChar post) # potentialPaths (dropWhile isPathChar post)"
proof -
  have all: "\<forall>x \<in> set ''home/user/docs''. isPathChar x"
    by (simp add: isPathChar_def isAlnum_def isLower_def lowerLetters_def)
  have tk: "takeWhile isPathChar (''home/user/docs'' @ post)
      = ''home/user/docs'' @ takeWhile isPathChar post"
    using all by (simp only: takeWhile_append2)
  have dk: "dropWhile isPathChar (''home/user/docs'' @ post) = dropWhile isPathChar post"
    using all by (simp only: dropWhile_append2)
  have "CHR ''/'' = CHR ''/'' \<and> startsAlnum (''home/user/docs'' @ post)"
    by (simp add: startsAlnum_def isAlnum_def isLower_def lowerLetters_def)
  then have "potentialPaths (CHR ''/'' # (''home/user/docs'' @ post))
      = (CHR ''/'' # takeWhile isPathChar (''home/user/docs'' @ post))
        # potentialPaths (dropWhile isPathChar (''home/user/docs'' @ post))"
    by (rule potentialPaths_slash)
  then have "potentialPaths (CHR ''/'' # (''home/user/docs'' @ post))
      = (CHR ''/'' # ''home/user/docs'' @ takeWhile isPathChar post)
        # potentialPaths (dropWhile isPathChar post)"
    by (simp only: tk dk)
  then show ?thesis by (simp add: posixFragment_def)
qed

lemma potentialPaths_windows:
  "potentialPaths (windowsFragment @ post)
     = (windowsFragment @ takeWhile isDriveChar post) # potentialPaths (dropWhile isDriveChar post)"
proof -
  let ?tail = "''Users'' @ [CHR 0x5C] @ ''name'' @ [CHR 0x5C] @ ''file''"
  have all: "\<forall>x \<in> set ?tail. isDriveChar x"
    by (simp add: isDriveChar_def isAlnum_def isLower_def isUpper_def lowerLetters_def upperLetters_def)
  have tk: "takeWhile isDriveChar (?tail @ post) = ?tail @ takeWhile isDriveChar post"
    using all by (simp only: takeWhile_append2)
  have dk: "dropWhile isDriveChar (?tail @ post) = dropWhile isDriveChar post"
    using all by (simp only: dropWhile_append2)
  have a: "\<not> (CHR ''C'' = CHR ''/'' \<and> startsAlnum (CHR '':'' # CHR 0x5C # ?tail @ post))"
    by simp
  have b: "isUpper CHR ''C'' \<and> startsWith (CHR '':'' # CHR 0x5C # ?tail @ post) [CHR '':'', CHR 0x5C]"
    by (simp add: isUpper_def upperLetters_def)
  have "potentialPaths (CHR ''C'' # (CHR '':'' # CHR 0x5C # ?tail @ post))
      = (CHR ''C'' # CHR '':'' # CHR 0x5C # takeWhile isDriveChar (drop 2 (CHR '':'' # CHR 0x5C # ?tail @ post)))
        # potentialPaths (dropWhile isDriveChar (drop 2 (CHR '':'' # CHR 0x5C # ?tail @ post)))"
    using a b by (rule potentialPaths_drive)
  moreover have "drop 2 (CHR '':'' # CHR 0x5C # ?tail @ post) = ?tail @ post" by simp
  ultimately have "potentialPaths (CHR ''C'' # (CHR '':'' # CHR 0x5C # ?tail @ post))
      = (CHR ''C'' # CHR '':'' # CHR 0x5C # ?tail @ takeWhile isDriveChar post)
        # potentialPaths (dropWhile isDriveChar post)"
    by (simp only: tk dk)
  then show ?thesis by (simp add: windowsFragment_def)
qed

lemma classOf_fragments:
  "classOf posixFragment = isPathChar" "classOf windowsFragment = isDriveChar"
  by (simp_all add: classOf_def isDriveRoot_def posixFragment_def windowsFragment_def
      isUpper_def upperLetters_def)

lemma candidate_found:
  assumes "frag = posixFragment \<or> frag = windowsFragment" and "startsAfresh pre (hd frag)"
  shows "pathAt frag post \<in> set (potentialPaths (pre @ frag @ post))"
proof -
  obtain x tail where frag: "frag = x # tail" and x: "x \<noteq> CHR '':''" "x \<noteq> CHR 0x5C"
    using assms(1) by (auto simp: posixFragment_def windowsFragment_def)
  have "potentialPaths (pre @ [x]) = potentialPaths pre"
    using assms(2) frag by (simp add: startsAfresh_def)
  then have "potentialPaths (pre @ x # (tail @ post))
      = potentialPaths pre @ potentialPaths (x # (tail @ post))"
    by (rule potentialPaths_seam [OF x])
  then have "potentialPaths (pre @ frag @ post) = potentialPaths pre @ potentialPaths (frag @ post)"
    using frag by simp
  moreover have "hd (potentialPaths (frag @ post)) = pathAt frag post
      \<and> potentialPaths (frag @ post) \<noteq> []"
    using assms(1) potentialPaths_posix [of post] potentialPaths_windows [of post]
    by (auto simp: pathAt_def classOf_fragments)
  ultimately show ?thesis by (metis Un_iff list.set_sel(1) set_append)
qed

lemma classifyPaths_iff:
  "path \<in> set (classifyPaths content paths) \<longleftrightarrow>
     path \<in> set paths \<and> \<not> isSchemePrefixed content path \<and> \<not> isUrlPath content path
     \<and> \<not> isNonFilesystem content path \<and> looksLikeRealPath path"
  by (induction paths) auto

lemma startsWith_append_left: "startsWith s p \<Longrightarrow> startsWith (s @ t) p"
  unfolding startsWith_iff by auto

lemma pathAt_real:
  assumes "frag = posixFragment \<or> frag = windowsFragment"
  shows "looksLikeRealPath (pathAt frag post)"
proof -
  have "startsWith posixFragment ''/home/''" by (simp add: posixFragment_def)
  then have "startsWith (pathAt posixFragment post) ''/home/''"
    unfolding pathAt_def by (rule startsWith_append_left)
  moreover have "isDriveRoot (pathAt windowsFragment post)"
    by (simp add: pathAt_def windowsFragment_def isDriveRoot_def isUpper_def upperLetters_def)
  ultimately show ?thesis using assms by (auto simp: looksLikeRealPath_def)
qed

lemma posix_nonFilesystem:
  "isNonFilesystem content posixFragment = includesStr content ''.com''"
  by (simp add: posixFragment_def isNonFilesystem_def twoSegmentTail_def isLowerAlnum_def
      isLower_def isDigit_def lowerLetters_def digits_def)

lemma twoSegmentTail_slash: "twoSegmentTail path \<Longrightarrow> CHR ''/'' \<in> set path"
proof -
  assume "twoSegmentTail path"
  then have "startsWith (dropWhile isLowerAlnum (rev path)) ''/''"
    by (simp add: twoSegmentTail_def Let_def)
  then have "CHR ''/'' \<in> set (dropWhile isLowerAlnum (rev path))"
    by (auto simp: startsWith_iff)
  then have "CHR ''/'' \<in> set (rev path)" by (rule set_dropWhileD)
  then show ?thesis by simp
qed

lemma windows_nonFilesystem: "\<not> isNonFilesystem content (pathAt windowsFragment post)"
proof -
  let ?t = "takeWhile isDriveChar post"
  have p: "pathAt windowsFragment post = windowsFragment @ ?t"
    by (simp only: pathAt_def classOf_fragments)
  have nd: "\<not> isDriveChar CHR ''/''"
    by (simp add: isDriveChar_def isAlnum_def isLower_def isUpper_def isDigit_def lowerLetters_def
        upperLetters_def digits_def)
  have "\<forall>c \<in> set ?t. isDriveChar c" using set_takeWhileD by fast
  then have "CHR ''/'' \<notin> set ?t" using nd by blast
  moreover have "CHR ''/'' \<notin> set windowsFragment" by (simp add: windowsFragment_def)
  ultimately have noSlash: "CHR ''/'' \<notin> set (windowsFragment @ ?t)" by simp
  have two: "\<not> twoSegmentTail (windowsFragment @ ?t)"
    using noSlash twoSegmentTail_slash by blast
  have data: "\<not> includesStr (windowsFragment @ ?t) ''/data/''"
  proof
    assume "includesStr (windowsFragment @ ?t) ''/data/''"
    then obtain a b where "windowsFragment @ ?t = a @ ''/data/'' @ b"
      unfolding includesStr_iff by blast
    then have "set (windowsFragment @ ?t) = set (a @ ''/data/'' @ b)" by (rule arg_cong)
    then have "CHR ''/'' \<in> set (windowsFragment @ ?t)" by simp
    then show False using noSlash by blast
  qed
  have starts: "\<not> startsWith (windowsFragment @ ?t) ''/api/''"
    "\<not> startsWith (windowsFragment @ ?t) ''/v1/''"
    "\<not> startsWith (windowsFragment @ ?t) ''/v2/''"
    by (simp_all add: windowsFragment_def)
  have len: "\<not> length (windowsFragment @ ?t) < 4"
    by (simp add: windowsFragment_def)
  show ?thesis
    unfolding p isNonFilesystem_def using two data starts len by blast
qed

lemma pathAt_alone: "post = [] \<or> \<not> classOf frag (hd post) \<Longrightarrow> pathAt frag post = frag"
  by (cases post) (auto simp: pathAt_def)

lemma portability_second_finding:
  "snd (scorePortability skill) ! 1 =
     (if length (findHardcodedPaths (skillMdContent skill)) = 0
      then \<lparr>ftype = Pass, message = ''No hardcoded absolute paths found'', points = 2\<rparr>
      else \<lparr>ftype = Fail,
            message = ''Hardcoded paths found: ''
              @ join '', '' (take 3 (findHardcodedPaths (skillMdContent skill))),
            points = 0\<rparr>)"
  by (simp add: scorePortability_eq portabilityTally_def Let_def portCrossPlatform_def
      portHardcoded_def portPlatformNotes_def portRelative_def award_def nth_append)

text \<open>
  Claim C9 fails as stated: each of these texts contains one of the two fragments, and
  \<open>findHardcodedPaths\<close> returns the empty list for it.
  \<^item> \<open>Sync /home/user/docs with example.com\<close>: the path ends in two lower-case segments
    and the text mentions \<open>.com\<close>; the second Portability finding is a pass with 2 points.
  \<^item> \<open>Mount /mnt/home/user/docs\<close>: the candidate began before the fragment, and
    \<open>/mnt/home/user/docs\<close> is not under one of the known roots.
  \<^item> \<open>Copy /home/user/docs, see https://x.org/home/user/docs\<close>: the path also stands
    after a host name.
  \<^item> \<open>Mount ftp:/home/user/docs\<close>: the path stands after a scheme.
  \<^item> \<open>Open file:///C:\\Users\\name\\file\<close>: the candidate \<open>/C\<close> took the drive letter.
  \<^item> \<open>Get ftp:C:\\Users\\name\\file\<close>: the path stands after a scheme.
\<close>

text \<open>
  Claim C9 fails as stated: each of these texts contains one of the two fragments, and
  \<open>findHardcodedPaths\<close> returns the empty list for it.
  \<^item> \<open>Sync /home/user/docs with example.com\<close>: the path ends in two lower-case segments
    and the text mentions \<open>.com\<close>; the second Portability finding is a pass with 2 points.
  \<^item> \<open>Mount /mnt/home/user/docs\<close>: the candidate began before the fragment, and
    \<open>/mnt/home/user/docs\<close> is not under one of the known roots.
  \<^item> \<open>Copy /home/user/docs, see https://x.org/home/user/docs\<close>: the path also stands
    after a host name.
  \<^item> \<open>Mount ftp:/home/user/docs\<close>: the path stands after a scheme.
  \<^item> \<open>Open file:///C:\\Users\\name\\file\<close>: the candidate \<open>/C\<close> took the drive letter.
  \<^item> \<open>Get ftp:C:\\Users\\name\\file\<close>: the path stands after a scheme.
\<close>

theorem hardcoded_path_recall_counterexample:
  "includesStr ''Sync /home/user/docs with example.com'' posixFragment
   \<and> findHardcodedPaths ''Sync /home/user/docs with example.com'' = []
   \<and> posixFragment \<notin> set (findHardcodedPaths ''Sync /home/user/docs with example.com'')
   \<and> ftype (snd (scorePortability (documentWith ''Sync /home/user/docs with example.com'')) ! 1)
       = Pass
   \<and> points (snd (scorePortability (documentWith ''Sync /home/user/docs with example.com'')) ! 1)
       = 2
   \<and> includesStr ''Mount /mnt/home/user/docs'' posixFragment
   \<and> findHardcodedPaths ''Mount /mnt/home/user/docs'' = []
   \<and> includesStr ''Copy /home/user/docs, see https://x.org/home/user/docs'' posixFragment
   \<and> findHardcodedPaths ''Copy /home/user/docs, see https://x.org/home/user/docs'' = []
   \<and> includesStr ''Mount ftp:/home/user/docs'' posixFragment
   \<and> findHardcodedPaths ''Mount ftp:/home/user/docs'' = []
   \<and> includesStr (''Open file:///'' @ windowsFragment) windowsFragment
   \<and> findHardcodedPaths (''Open file:///'' @ windowsFragment) = []
   \<and> includesStr (''Get ftp:'' @ windowsFragment) windowsFragment
   \<and> findHardcodedPaths (''Get ftp:'' @ windowsFragment) = []"
  by code_simp

text \<open>
  Claim C9, amended.  Let a document be \<open>pre @ frag @ post\<close>, where \<open>frag\<close> is the
  fragment \<open>/home/user/docs\<close> or the fragment \<open>C:\\Users\\name\\file\<close>, and let no candidate
  of \<open>pre\<close> run into the fragment.  The scan then finds the candidate that begins with
  the fragment, \<open>pathAt frag post\<close>, which is the fragment itself unless a character of
  its class follows.  \<open>findHardcodedPaths\<close> returns this candidate exactly when none of
  the three discard tests of the source holds for it: the path stands after a scheme,
  it stands after a host name, or it is taken for a route.  The third test never
  holds for a candidate that begins with \<open>C:\\Users\\name\\file\<close>, and holds for
  \<open>/home/user/docs\<close> exactly when the document mentions \<open>.com\<close>.  When the candidate is
  returned, the list is not empty and the second Portability finding is a failure with
  0 points.
\<close>

theorem hardcoded_path_recall:
  assumes "skillMdContent skill = pre @ frag @ post"
    and "frag = posixFragment \<or> frag = windowsFragment"
    and "startsAfresh pre (hd frag)"
  shows "pathAt frag post \<in> set (potentialPaths (skillMdContent skill))
         \<and> (post = [] \<or> \<not> classOf frag (hd post) \<longrightarrow> pathAt frag post = frag)
         \<and> (pathAt frag post \<in> set (findHardcodedPaths (skillMdContent skill))
              \<longleftrightarrow> \<not> isSchemePrefixed (skillMdContent skill) (pathAt frag post)
                  \<and> \<not> isUrlPath (skillMdContent skill) (pathAt frag post)
                  \<and> \<not> isNonFilesystem (skillMdContent skill) (pathAt frag post))
         \<and> (frag = windowsFragment \<longrightarrow> \<not> isNonFilesystem (skillMdContent skill) (pathAt frag post))
         \<and> (isNonFilesystem (skillMdContent skill) posixFragment
              \<longleftrightarrow> includesStr (skillMdContent skill) ''.com'')
         \<and> (pathAt frag post \<in> set (findHardcodedPaths (skillMdContent skill))
              \<longrightarrow> findHardcodedPaths (skillMdContent skill) \<noteq> []
                  \<and> ftype (snd (scorePortability skill) ! 1) = Fail
                  \<and> points (snd (scorePortability skill) ! 1) = 0)"
proof -
  let ?content = "skillMdContent skill"
  let ?cand = "pathAt frag post"
  have cand: "?cand \<in> set (potentialPaths ?content)"
    using assms candidate_found by simp
  have alone: "post = [] \<or> \<not> classOf frag (hd post) \<longrightarrow> ?cand = frag"
    using pathAt_alone by blast
  have real: "looksLikeRealPath ?cand" using assms(2) by (rule pathAt_real)
  have iff: "?cand \<in> set (findHardcodedPaths ?content)
      \<longleftrightarrow> \<not> isSchemePrefixed ?content ?cand \<and> \<not> isUrlPath ?content ?cand
          \<and> \<not> isNonFilesystem ?content ?cand"
    using cand real by (simp add: findHardcodedPaths_def classifyPaths_iff)
  have win: "frag = windowsFragment \<longrightarrow> \<not> isNonFilesystem ?content ?cand"
    using windows_nonFilesystem by blast
  have fails: "?cand \<in> set (findHardcodedPaths ?content)
      \<longrightarrow> findHardcodedPaths ?content \<noteq> []
          \<and> ftype (snd (scorePortability skill) ! 1) = Fail
          \<and> points (snd (scorePortability skill) ! 1) = 0"
  proof
    assume "?cand \<in> set (findHardcodedPaths ?content)"
    then have ne: "findHardcodedPaths ?content \<noteq> []" by auto
    then have "snd (scorePortability skill) ! 1 =
        \<lparr>ftype = Fail,
         message = ''Hardcoded paths found: '' @ join '', '' (take 3 (findHardcodedPaths ?content)),
         points = 0\<rparr>"
      using portability_second_finding [of skill] by simp
    then show "findHardcodedPaths ?content \<noteq> []
          \<and> ftype (snd (scorePortability skill) ! 1) = Fail
          \<and> points (snd (scorePortability skill) ! 1) = 0"
      using ne by simp
  qed
  note nf = posix_nonFilesystem [of ?content]
  show ?thesis
    by (rule conjI [OF cand conjI [OF alone conjI [OF iff conjI [OF win conjI [OF nf fails]]]]])
qed

theorem hardcoded_path_recall_witness:
  "posixFragment \<in> set (findHardcodedPaths
       (''Copy `'' @ posixFragment @ ''` to https://backup.example.org/upload''))
   \<and> ftype (snd (scorePortability (documentWith
       (''Copy `'' @ posixFragment @ ''` to https://backup.example.org/upload''))) ! 1) = Fail
   \<and> points (snd (scorePortability (documentWith
       (''Copy `'' @ posixFragment @ ''` to https://backup.example.org/upload''))) ! 1) = 0
   \<and> windowsFragment \<in> set (findHardcodedPaths
       (''set DIR='' @ windowsFragment @ ''; see https://example.org/help''))
   \<and> ftype (snd (scorePortability (documentWith
       (''set DIR='' @ windowsFragment @ ''; see https://example.org/help''))) ! 1) = Fail"
proof -
  let ?p = "''Copy `'' @ posixFragment @ ''` to https://backup.example.org/upload''"
  let ?w = "''set DIR='' @ windowsFragment @ ''; see https://example.org/help''"
  have contents: "skillMdContent (documentWith ?p) = ?p" "skillMdContent (documentWith ?w) = ?w"
    by (simp_all add: documentWith_def)
  have frags: "posixFragment = posixFragment \<or> posixFragment = windowsFragment"
    "windowsFragment = posixFragment \<or> windowsFragment = windowsFragment"
    by simp_all
  have afresh: "startsAfresh ''Copy `'' (hd posixFragment)"
    "startsAfresh ''set DIR='' (hd windowsFragment)"
    by code_simp+
  have alone: "\<not> classOf posixFragment (hd ''` to https://backup.example.org/upload'')"
    "\<not> classOf windowsFragment (hd ''; see https://example.org/help'')"
    by code_simp+
  have tests: "\<not> isSchemePrefixed ?p posixFragment" "\<not> isUrlPath ?p posixFragment"
    "\<not> isNonFilesystem ?p posixFragment"
    "\<not> isSchemePrefixed ?w windowsFragment" "\<not> isUrlPath ?w windowsFragment"
    by code_simp+
  have same: "pathAt posixFragment ''` to https://backup.example.org/upload'' = posixFragment"
    "pathAt windowsFragment ''; see https://example.org/help'' = windowsFragment"
    using alone by (simp_all add: pathAt_def)
  have "posixFragment \<in> set (findHardcodedPaths ?p)
      \<and> ftype (snd (scorePortability (documentWith ?p)) ! 1) = Fail
      \<and> points (snd (scorePortability (documentWith ?p)) ! 1) = 0"
    using hardcoded_path_recall [OF contents(1) frags(1) afresh(1)] tests(1,2,3)
    unfolding contents(1) same(1) by blast
  moreover have "windowsFragment \<in> set (findHardcodedPaths ?w)
      \<and> ftype (snd (scorePortability (documentWith ?w)) ! 1) = Fail"
    using hardcoded_path_recall [OF contents(2) frags(2) afresh(2)] tests(4,5)
    unfolding contents(2) same(2) by blast
  ultimately show ?thesis by blast
qed

section \<open>The path classifier: precision\<close>

text \<open>On the two examples of the precision property the classifier finds no path.\<close>

lemma findHardcodedPaths_url_examples:
  "findHardcodedPaths ''Styles: https://cdn.example.com/CSS/styles.css, route /api/v2/fetch'' = []"
  by code_simp

text \<open>
  A candidate never begins with two slashes, since the character after the first slash
  of a match is a letter or a digit: the first of the URL tests in the loop never holds,
  and in a URL \<open>https://host/...\<close> the candidate begins at the second slash, before
  the host, so that neither \<open>content.includes(`https:${path}`)\<close> nor the URL pattern
  finds it.
\<close>

lemma potentialPaths_no_double_slash:
  "path \<in> set (potentialPaths content) \<Longrightarrow> \<not> startsWith path ''//''"
proof (induction content rule: potentialPaths.induct)
  case 1
  then show ?case by (simp add: potentialPaths.simps(1))
next
  case (2 c cs)
  show ?case
  proof (cases "c = CHR ''/'' \<and> startsAlnum cs")
    case True
    then obtain d ds where cs: "cs = d # ds" and d: "isAlnum d"
      by (cases cs) (auto simp: startsAlnum_def)
    have nd: "d \<noteq> CHR ''/''"
      using d by (auto simp: isAlnum_def isLower_def isUpper_def isDigit_def lowerLetters_def
          upperLetters_def digits_def)
    have "isPathChar d" using d by (simp add: isPathChar_def)
    then have hd: "c # takeWhile isPathChar cs = c # d # takeWhile isPathChar ds"
      using cs by simp
    from "2.prems" True
    consider "path = c # takeWhile isPathChar cs" | "path \<in> set (potentialPaths (dropWhile isPathChar cs))"
      by (auto simp: potentialPaths_slash)
    then show ?thesis
    proof cases
      case 1
      then show ?thesis using hd nd by simp
    next
      case 2
      then show ?thesis using "2.IH"(1) True by simp
    qed
  next
    case notSlash: False
    show ?thesis
    proof (cases "isUpper c \<and> startsWith cs [CHR '':'', CHR 0x5C]")
      case True
      from "2.prems" notSlash True
      consider "path = c # CHR '':'' # CHR 0x5C # takeWhile isDriveChar (drop 2 cs)"
        | "path \<in> set (potentialPaths (dropWhile isDriveChar (drop 2 cs)))"
        using potentialPaths_drive [OF notSlash True] by auto
      then show ?thesis
      proof cases
        case 1
        then show ?thesis by simp
      next
        case 2
        then show ?thesis using "2.IH"(2) notSlash True by simp
      qed
    next
      case False
      then have "path \<in> set (potentialPaths cs)"
        using "2.prems" potentialPaths_skip [OF notSlash False] by simp
      then show ?thesis using "2.IH"(3) notSlash False by simp
    qed
  qed
qed

lemma url_dot_segment_not_skipped:
  "\<not> isSchemePrefixed ''See https://example.com/.well-known/security.txt''
        ''/example.com/.well-known/security.txt''
   \<and> \<not> isUrlPath ''See https://example.com/.well-known/security.txt''
        ''/example.com/.well-known/security.txt''"
  by code_simp

text \<open>
  Claim C8 does not hold of the code.  The text
  \<open>See https://example.com/.well-known/security.txt\<close> has one fragment of the shape of
  an absolute path, and it is part of a URL; \<open>findHardcodedPaths\<close> returns it, so the
  second Portability finding is a failure with 0 points.
\<close>

theorem findHardcodedPaths_url_dot_segment:
  "findHardcodedPaths ''See https://example.com/.well-known/security.txt''
     = [''/example.com/.well-known/security.txt'']
   \<and> ftype (snd (scorePortability
         (documentWith ''See https://example.com/.well-known/security.txt'')) ! 1) = Fail
   \<and> points (snd (scorePortability
         (documentWith ''See https://example.com/.well-known/security.txt'')) ! 1) = 0
   \<and> message (snd (scorePortability
         (documentWith ''See https://example.com/.well-known/security.txt'')) ! 1)
       = ''Hardcoded paths found: /example.com/.well-known/security.txt''"
  by code_simp

end
